theory Spec2Isabelle
  imports Complex_Main
begin

section \<open>Strings of the source language\<close>

text \<open>
  A Python \<open>str\<close> is modelled as a \<open>string\<close>; one \<open>char\<close> stands for one code point
  (code points above 255 are outside the model). The character classes below are the
  explicit ranges the regular expressions of \<open>transformer.py\<close> use.
\<close>

definition is_ascii_letter :: "char \<Rightarrow> bool" where
  "is_ascii_letter c \<longleftrightarrow> c \<in> set ''abcdefghijklmnopqrstuvwxyzABCDEFGHIJKLMNOPQRSTUVWXYZ''"

definition is_ascii_digit :: "char \<Rightarrow> bool" where
  "is_ascii_digit c \<longleftrightarrow> c \<in> set ''0123456789''"

definition is_uri_safe :: "char \<Rightarrow> bool" where
  \<comment> \<open>the class \<open>[a-zA-Z0-9_]\<close>\<close>
  "is_uri_safe c \<longleftrightarrow> is_ascii_letter c \<or> is_ascii_digit c \<or> c = CHR ''_''"

definition newline :: char where
  "newline = CHR 0x0A"

definition is_space :: "char \<Rightarrow> bool" where
  \<comment> \<open>the code points below 256 for which \<open>str.isspace\<close> holds; \<open>str.strip()\<close> removes them\<close>
  "is_space c \<longleftrightarrow> c \<in> set [CHR 0x09, CHR 0x0A, CHR 0x0B, CHR 0x0C, CHR 0x0D,
      CHR 0x1C, CHR 0x1D, CHR 0x1E, CHR 0x1F, CHR 0x20, CHR 0x85, CHR 0xA0]"

definition py_strip :: "string \<Rightarrow> string" where
  \<comment> \<open>\<open>s.strip()\<close>\<close>
  "py_strip s = rev (dropWhile is_space (rev (dropWhile is_space s)))"

definition lower_char :: "char \<Rightarrow> char" where
  \<comment> \<open>\<open>A\<close>..\<open>Z\<close> and the upper-case letters of Latin-1 move 32 code points up\<close>
  "lower_char c =
     (let n = (of_char c :: nat)
      in if (65 \<le> n \<and> n \<le> 90) \<or> (192 \<le> n \<and> n \<le> 222 \<and> n \<noteq> 215)
         then char_of (n + 32) else c)"

definition py_lower :: "string \<Rightarrow> string" where
  \<comment> \<open>\<open>s.lower()\<close>\<close>
  "py_lower s = map lower_char s"

fun py_split :: "char \<Rightarrow> string \<Rightarrow> string list" where
  \<comment> \<open>\<open>s.split(sep)\<close> for a one-character separator: n separators give n + 1 pieces\<close>
  "py_split sep [] = [[]]"
| "py_split sep (c # cs) =
     (if c = sep then [] # py_split sep cs
      else (case py_split sep cs of
              [] \<Rightarrow> [[c]]
            | p # ps \<Rightarrow> (c # p) # ps))"

function py_replace :: "string \<Rightarrow> string \<Rightarrow> string \<Rightarrow> string" where
  \<comment> \<open>\<open>s.replace(old, new)\<close>, left to right without overlap; both call sites pass a
      non-empty \<open>old\<close> (for an empty one the model leaves \<open>s\<close> as it is)\<close>
  "py_replace old new [] = []"
| "py_replace old new (c # cs) =
     (if old \<noteq> [] \<and> take (length old) (c # cs) = old
      then new @ py_replace old new (drop (length old) (c # cs))
      else c # py_replace old new cs)"
  by pat_completeness auto
termination
  by (relation "measure (\<lambda>(old, new, s). length s)") (auto simp: Suc_le_eq)

section \<open>Tables, graph terms and the library the program relies on\<close>

text \<open>
  What \<open>pandas\<close> hands to the program: after \<open>read_csv\<close> a cell is a missing value
  (\<open>pd.notna\<close> is false), a text, or a number. A row answers to every column of the
  header, so a row is a function of the column name and \<open>row[k]\<close> raises \<open>KeyError\<close>
  exactly when \<open>k\<close> is no column of the table.
\<close>

datatype 'n cell = NaN | Str string | Num 'n

type_synonym 'n row = "string \<Rightarrow> 'n cell"

record 'n dataframe =
  columns :: "string list"
  rows :: "'n row list"

datatype py_exception =
    KeyError | AttributeError | ValueError | OverflowError | IndexError
  | ReadError | SystemExit nat

definition row_get :: "string list \<Rightarrow> 'n row \<Rightarrow> string \<Rightarrow> py_exception + 'n cell" where
  \<comment> \<open>\<open>row[k]\<close>\<close>
  "row_get cols row k = (if k \<in> set cols then Inr (row k) else Inl KeyError)"

text \<open>
  The Python built-ins applied to cell values are parameters of the model: \<open>float(s)\<close>
  for a text (\<open>None\<close> is \<open>ValueError\<close>), \<open>float(n)\<close> for a number (\<open>None\<close> is
  \<open>OverflowError\<close>, raised for an int too large for a float), and the text that
  formatting a number inside an f-string gives.
\<close>

record ('n, 'f) pylib =
  float_of_str :: "string \<Rightarrow> 'f option"
  float_of_num :: "'n \<Rightarrow> 'f option"
  str_of_num :: "'n \<Rightarrow> string"

definition py_format :: "('n, 'f) pylib \<Rightarrow> 'n cell \<Rightarrow> string" where
  \<comment> \<open>\<open>f"{value}"\<close>\<close>
  "py_format lib v = (case v of NaN \<Rightarrow> ''nan'' | Str s \<Rightarrow> s | Num n \<Rightarrow> str_of_num lib n)"

text \<open>
  Terms of the graph. A \<open>URIRef\<close> is its text; a literal is a plain text, a
  \<open>xsd:dateTime\<close> literal built from the timestamp cell as it is, or a \<open>xsd:float\<close>
  literal. The graph is kept as the list of statements passed to \<open>g.add\<close>, in order;
  the store of \<open>rdflib\<close> holds the set of that list.
\<close>

datatype ('n, 'f) node =
    URIRef string
  | Literal string
  | Literal_dateTime "'n cell"
  | Literal_float 'f

type_synonym ('n, 'f) triple = "('n, 'f) node \<times> ('n, 'f) node \<times> ('n, 'f) node"

definition SAREF :: "string \<Rightarrow> ('n, 'f) node" where
  "SAREF name = URIRef (''https://saref.etsi.org/core/'' @ name)"

definition EX_ns :: "string \<Rightarrow> ('n, 'f) node" where
  \<comment> \<open>the namespace \<open>EX\<close> of the source\<close>
  "EX_ns name = URIRef (''http://example.com/'' @ name)"

definition EXDATA :: "string \<Rightarrow> ('n, 'f) node" where
  "EXDATA name = URIRef (''http://example.com/data/'' @ name)"

definition RDF_type :: "('n, 'f) node" where
  "RDF_type = URIRef ''http://www.w3.org/1999/02/22-rdf-syntax-ns#type''"

definition RDFS_label :: "('n, 'f) node" where
  "RDFS_label = URIRef ''http://www.w3.org/2000/01/rdf-schema#label''"

section \<open>Helper functions of \<open>transformer.py\<close>\<close>

definition sanitize_for_uri :: "string \<Rightarrow> string" where
  \<comment> \<open>\<open>re.sub(r'^DE_KN_', '', text)\<close>, then \<open>re.sub(r'[^a-zA-Z0-9_]', '_', text)\<close>\<close>
  "sanitize_for_uri text =
     (let text = (if take 6 text = ''DE_KN_'' then drop 6 text else text)
      in map (\<lambda>c. if is_uri_safe c then c else CHR ''_'') text)"

definition match_location :: "string \<Rightarrow> (string \<times> string) option" where
  \<comment> \<open>the common head \<open>DE_KN_([a-zA-Z]+[0-9]+)\<close> of both patterns, matched at the start:
      the captured group and the text left after it. Each \<open>+\<close> takes its longest run;
      giving a character back never helps, as the next item of the pattern cannot
      match a character of the run.\<close>
  "match_location s =
     (if take 6 s = ''DE_KN_'' then
        (let r = drop 6 s;
             ls = takeWhile is_ascii_letter r;
             r1 = dropWhile is_ascii_letter r;
             ds = takeWhile is_ascii_digit r1;
             r2 = dropWhile is_ascii_digit r1
         in if ls \<noteq> [] \<and> ds \<noteq> [] then Some (ls @ ds, r2) else None)
      else None)"

definition match_foi :: "string \<Rightarrow> string option" where
  \<comment> \<open>\<open>re.match(r"DE_KN_([a-zA-Z]+[0-9]+)(_|$)", column_name)\<close>: group 1, when it
      matches; \<open>$\<close> holds at the end of the text and before a newline that ends it\<close>
  "match_foi column_name =
     (case match_location column_name of
        None \<Rightarrow> None
      | Some (loc, rest) \<Rightarrow>
          if take 1 rest = [CHR ''_''] \<or> rest = [] \<or> rest = [newline]
          then Some loc else None)"

definition get_feature_of_interest_uri :: "string \<Rightarrow> ('n, 'f) node option" where
  "get_feature_of_interest_uri column_name =
     (case match_foi column_name of
        Some g1 \<Rightarrow> Some (EXDATA (''Location_'' @ g1))
      | None \<Rightarrow> None)"

definition get_sensor_uri :: "string \<Rightarrow> ('n, 'f) node" where
  "get_sensor_uri column_name = EXDATA (''Sensor_'' @ sanitize_for_uri column_name)"

definition match_property :: "string \<Rightarrow> string option" where
  \<comment> \<open>\<open>re.match(r"DE_KN_[a-zA-Z]+[0-9]+_(.+)", column_name)\<close>: group 1, when it matches;
      \<open>.\<close> is any character but a newline and \<open>.+\<close> takes the longest run\<close>
  "match_property column_name =
     (case match_location column_name of
        None \<Rightarrow> None
      | Some (loc, rest) \<Rightarrow>
          (case rest of
             [] \<Rightarrow> None
           | c # cs \<Rightarrow>
               if c = CHR ''_'' \<and> takeWhile (\<lambda>x. x \<noteq> newline) cs \<noteq> []
               then Some (takeWhile (\<lambda>x. x \<noteq> newline) cs) else None))"

definition get_property_uri :: "string \<Rightarrow> ('n, 'f) node" where
  "get_property_uri column_name =
     (let prop_name = (case match_property column_name of
                         Some g1 \<Rightarrow> sanitize_for_uri g1
                       | None \<Rightarrow> sanitize_for_uri column_name)
      in EX_ns (''Property_'' @ prop_name))"

section \<open>The transformation\<close>

definition measurement_columns :: "string list \<Rightarrow> string list" where
  "measurement_columns all_columns =
     filter (\<lambda>col. CHR ''_'' \<in> set col
                 \<and> col \<notin> set [''utc_timestamp'', ''cet_cest_timestamp'', ''interpolated''])
            all_columns"

subsection \<open>Declaring sensors, properties and features of interest\<close>

record ('n, 'f) seen =
  defined_sensors :: "('n, 'f) node set"
  defined_properties :: "('n, 'f) node set"
  defined_fois :: "('n, 'f) node set"

definition foi_label :: "('n, 'f) node \<Rightarrow> string" where
  \<comment> \<open>\<open>foi_uri.split('/')[-1].replace('Location_', '').replace('_', ' ')\<close>\<close>
  "foi_label foi_uri =
     (case foi_uri of
        URIRef u \<Rightarrow>
          py_replace ''_'' '' '' (py_replace ''Location_'' [] (last (py_split (CHR ''/'') u)))
      | _ \<Rightarrow> [])"

definition declare_column ::
  "string \<Rightarrow> ('n, 'f) seen \<Rightarrow> ('n, 'f) triple list \<times> ('n, 'f) seen" where
  \<comment> \<open>the body of the first \<open>for col in measurement_columns\<close>: the statements it adds
      and the seen-sets after it\<close>
  "declare_column col sn =
     (let sensor_uri = get_sensor_uri col;
          prop_uri = get_property_uri col;
          foi_uri = get_feature_of_interest_uri col;
          (t1, sn1) =
            (if sensor_uri \<notin> defined_sensors sn
             then ([(sensor_uri, RDF_type, SAREF ''Sensor''),
                    (sensor_uri, RDFS_label, Literal (''Sensor for '' @ col)),
                    (sensor_uri, SAREF ''measuresProperty'', prop_uri)],
                   sn\<lparr>defined_sensors := insert sensor_uri (defined_sensors sn)\<rparr>)
             else ([], sn));
          (t2, sn2) =
            (if prop_uri \<notin> defined_properties sn1
             then ([(prop_uri, RDF_type, SAREF ''Property''),
                    (prop_uri, RDFS_label, Literal (''Property measured by '' @ col))],
                   sn1\<lparr>defined_properties := insert prop_uri (defined_properties sn1)\<rparr>)
             else ([], sn1));
          (t3, sn3) =
            (case foi_uri of
               None \<Rightarrow> ([], sn2)
             | Some f \<Rightarrow>
                 if f \<notin> defined_fois sn2
                 then ([(f, RDF_type, SAREF ''FeatureOfInterest''),
                        (f, RDFS_label, Literal (''Location '' @ foi_label f))],
                       sn2\<lparr>defined_fois := insert f (defined_fois sn2)\<rparr>)
                 else ([], sn2))
      in (t1 @ t2 @ t3, sn3))"

fun declare_entities ::
  "string list \<Rightarrow> ('n, 'f) seen \<Rightarrow> ('n, 'f) triple list" where
  "declare_entities [] sn = []"
| "declare_entities (col # cols) sn =
     (case declare_column col sn of (ts, sn') \<Rightarrow> ts @ declare_entities cols sn')"

definition no_seen :: "('n, 'f) seen" where
  "no_seen = \<lparr>defined_sensors = {}, defined_properties = {}, defined_fois = {}\<rparr>"

subsection \<open>Rows to observations\<close>

definition interpolated_sensors_in_row :: "'n cell \<Rightarrow> py_exception + ('n, 'f) node set" where
  \<comment> \<open>from the cell \<open>row['interpolated']\<close>; \<open>.lower()\<close> of a number raises\<close>
  "interpolated_sensors_in_row marker =
     (case marker of
        NaN \<Rightarrow> Inr {}
      | Num n \<Rightarrow> Inl AttributeError
      | Str s \<Rightarrow>
          if py_lower s \<noteq> ''nan''
          then Inr (set (map get_sensor_uri (map py_strip (py_split (CHR ''|'') s))))
          else Inr {})"

definition observation_triples ::
  "string \<Rightarrow> ('n, 'f) pylib \<Rightarrow> 'n cell \<Rightarrow> 'f \<Rightarrow> ('n, 'f) triple list" where
  \<comment> \<open>the statements of one observation, in the order they are added\<close>
  "observation_triples col lib timestamp_str numeric_value =
     (let sensor_uri = get_sensor_uri col;
          prop_uri = get_property_uri col;
          foi_uri = get_feature_of_interest_uri col;
          obs_uri = EXDATA (''Observation_'' @ sanitize_for_uri col @ ''_''
                              @ py_format lib timestamp_str)
      in [(obs_uri, RDF_type, SAREF ''Observation''),
          (obs_uri, SAREF ''hasTimestamp'', Literal_dateTime timestamp_str),
          (obs_uri, SAREF ''hasValue'', Literal_float numeric_value),
          (obs_uri, SAREF ''madeBySensor'', sensor_uri),
          (obs_uri, SAREF ''relatesToProperty'', prop_uri)]
         @ (case foi_uri of None \<Rightarrow> [] | Some f \<Rightarrow> [(obs_uri, SAREF ''isAbout'', f)]))"

definition observe_column ::
  "('n, 'f) pylib \<Rightarrow> string list \<Rightarrow> 'n row \<Rightarrow> 'n cell \<Rightarrow> ('n, 'f) node set \<Rightarrow> string
     \<Rightarrow> ('n, 'f) triple list \<times> py_exception option" where
  \<comment> \<open>the body of the inner \<open>for col in measurement_columns\<close>: the statements it adds,
      and the exception that leaves it, if any. \<open>except ValueError\<close> catches what
      \<open>float\<close> raises for a text; \<open>OverflowError\<close> is not a \<open>ValueError\<close> and leaves
      the body\<close>
  "observe_column lib cols row timestamp_str interpolated col =
     (if get_sensor_uri col \<in> interpolated then ([], None)
      else (case row_get cols row col of
              Inl e \<Rightarrow> ([], Some e)
            | Inr NaN \<Rightarrow> ([], None)
            | Inr (Str s) \<Rightarrow>
                (case float_of_str lib s of
                   None \<Rightarrow> ([], None)
                 | Some v \<Rightarrow> (observation_triples col lib timestamp_str v, None))
            | Inr (Num n) \<Rightarrow>
                (case float_of_num lib n of
                   None \<Rightarrow> ([], Some OverflowError)
                 | Some v \<Rightarrow> (observation_triples col lib timestamp_str v, None))))"

fun observe_columns ::
  "('n, 'f) pylib \<Rightarrow> string list \<Rightarrow> 'n row \<Rightarrow> 'n cell \<Rightarrow> ('n, 'f) node set \<Rightarrow> string list
     \<Rightarrow> ('n, 'f) triple list \<times> py_exception option" where
  "observe_columns lib cols row ts interpolated [] = ([], None)"
| "observe_columns lib cols row ts interpolated (col # rest) =
     (case observe_column lib cols row ts interpolated col of
        (added, Some e) \<Rightarrow> (added, Some e)
      | (added, None) \<Rightarrow>
          (case observe_columns lib cols row ts interpolated rest of
             (later, x) \<Rightarrow> (added @ later, x)))"

definition row_body ::
  "('n, 'f) pylib \<Rightarrow> string list \<Rightarrow> string list \<Rightarrow> 'n row
     \<Rightarrow> ('n, 'f) triple list \<times> py_exception option" where
  \<comment> \<open>the body of \<open>try\<close> for one row: what it adds to the graph before it ends or raises\<close>
  "row_body lib cols mcols row =
     (case row_get cols row ''utc_timestamp'' of
        Inl e \<Rightarrow> ([], Some e)
      | Inr timestamp_str \<Rightarrow>
          (case row_get cols row ''interpolated'' of
             Inl e \<Rightarrow> ([], Some e)
           | Inr marker \<Rightarrow>
               (case interpolated_sensors_in_row marker of
                  Inl e \<Rightarrow> ([], Some e)
                | Inr interpolated \<Rightarrow>
                    observe_columns lib cols row timestamp_str interpolated mcols)))"

text \<open>
  The loop over the rows. Of what the program prints, the diagnostics of the
  \<open>except\<close> branch are kept: the index of the row and the exception.
\<close>

fun process_rows ::
  "('n, 'f) pylib \<Rightarrow> string list \<Rightarrow> string list \<Rightarrow> nat \<Rightarrow> 'n row list
     \<Rightarrow> ('n, 'f) triple list \<times> (nat \<times> py_exception) list
     \<Rightarrow> ('n, 'f) triple list \<times> (nat \<times> py_exception) list" where
  "process_rows lib cols mcols index [] (g, printed) = (g, printed)"
| "process_rows lib cols mcols index (row # remaining) (g, printed) =
     (case row_body lib cols mcols row of
        (added, None) \<Rightarrow> process_rows lib cols mcols (Suc index) remaining (g @ added, printed)
      | (added, Some e) \<Rightarrow>
          process_rows lib cols mcols (Suc index) remaining (g @ added, printed @ [(index, e)]))"

definition build_graph ::
  "('n, 'f) pylib \<Rightarrow> 'n dataframe \<Rightarrow> ('n, 'f) triple list \<times> (nat \<times> py_exception) list" where
  \<comment> \<open>\<open>transform_csv_to_rdf\<close> between reading the table and serialising the graph\<close>
  "build_graph lib df =
     (let all_columns = columns df;
          mcols = measurement_columns all_columns;
          g = declare_entities mcols no_seen
      in process_rows lib all_columns mcols 0 (rows df) (g, []))"

subsection \<open>Reading, serialising, and the command line\<close>

text \<open>
  The two collaborators are parameters: \<open>pd.read_csv(path)\<close>, which is \<open>None\<close> when
  it raises (no such file, nothing to parse), and
  \<open>g.serialize(destination = path, format = "turtle")\<close>, which is \<open>False\<close> when it
  raises. The program reads the file twice, the header first;
  both reads see the same file, so the header is the column list of the table. A run
  that returns gives the path written and the graph written there.
\<close>

record ('n, 'f) environment =
  read_csv :: "string \<Rightarrow> 'n dataframe option"
  serialize :: "('n, 'f) triple list \<Rightarrow> string \<Rightarrow> bool"

definition transform_csv_to_rdf ::
  "('n, 'f) pylib \<Rightarrow> ('n, 'f) environment \<Rightarrow> string \<Rightarrow> string
     \<Rightarrow> py_exception + (string \<times> ('n, 'f) triple list)" where
  "transform_csv_to_rdf lib env csv_filepath output_filepath =
     (case read_csv env csv_filepath of
        None \<Rightarrow> Inl ReadError
      | Some df \<Rightarrow>
          (case build_graph lib df of
             (g, printed) \<Rightarrow>
               if serialize env g output_filepath then Inr (output_filepath, g)
               else Inl (SystemExit 1)))"

definition main ::
  "('n, 'f) pylib \<Rightarrow> ('n, 'f) environment \<Rightarrow> string list
     \<Rightarrow> py_exception + (string \<times> ('n, 'f) triple list)" where
  \<comment> \<open>the \<open>__main__\<close> block on \<open>sys.argv\<close>: \<open>sys.argv[1]\<close> raises \<open>IndexError\<close> when
      there is no argument; the output path is the default of the function's parameter\<close>
  "main lib env argv =
     (if 1 < length argv then transform_csv_to_rdf lib env (argv ! 1) ''graph.ttl''
      else Inl IndexError)"

definition exit_code :: "py_exception + 'a \<Rightarrow> nat" where
  \<comment> \<open>the status of the interpreter: 0 when the script ends, the argument of
      \<open>sys.exit\<close>, 1 for an exception nobody catches\<close>
  "exit_code r = (case r of Inr _ \<Rightarrow> 0 | Inl (SystemExit n) \<Rightarrow> n | Inl _ \<Rightarrow> 1)"

section \<open>Reading a graph\<close>

definition about :: "('n, 'f) node \<Rightarrow> ('n, 'f) triple list \<Rightarrow> ('n, 'f) triple list" where
  \<comment> \<open>the statements with subject \<open>s\<close>, in the order they were added\<close>
  "about s g = filter (\<lambda>t. fst t = s) g"

definition statements ::
  "('n, 'f) node \<Rightarrow> ('n, 'f) node \<Rightarrow> ('n, 'f) triple list \<Rightarrow> ('n, 'f) triple list" where
  \<comment> \<open>the statements with subject \<open>s\<close> and predicate \<open>p\<close>\<close>
  "statements s p g = filter (\<lambda>t. fst t = s \<and> fst (snd t) = p) g"

definition objects_of ::
  "('n, 'f) node \<Rightarrow> ('n, 'f) node \<Rightarrow> ('n, 'f) triple list \<Rightarrow> ('n, 'f) node list" where
  "objects_of s p g = map (\<lambda>t. snd (snd t)) (statements s p g)"

definition instances_of :: "('n, 'f) node \<Rightarrow> ('n, 'f) triple list \<Rightarrow> ('n, 'f) node list" where
  \<comment> \<open>the subjects declared with \<open>rdf:type\<close> \<open>c\<close>, one entry per such statement\<close>
  "instances_of c g = map fst (filter (\<lambda>t. snd t = (RDF_type, c)) g)"

text \<open>
  The statements one declaration adds, and the identity of an observation, named for
  the statements of the theorems.
\<close>

definition sensor_decl :: "string \<Rightarrow> ('n, 'f) triple list" where
  "sensor_decl col =
     [(get_sensor_uri col, RDF_type, SAREF ''Sensor''),
      (get_sensor_uri col, RDFS_label, Literal (''Sensor for '' @ col)),
      (get_sensor_uri col, SAREF ''measuresProperty'', get_property_uri col)]"

definition property_decl :: "string \<Rightarrow> ('n, 'f) triple list" where
  "property_decl col =
     [(get_property_uri col, RDF_type, SAREF ''Property''),
      (get_property_uri col, RDFS_label, Literal (''Property measured by '' @ col))]"

definition foi_decl :: "('n, 'f) node \<Rightarrow> ('n, 'f) triple list" where
  "foi_decl f =
     [(f, RDF_type, SAREF ''FeatureOfInterest''),
      (f, RDFS_label, Literal (''Location '' @ foi_label f))]"

definition observation_uri :: "string \<Rightarrow> ('n, 'f) node" where
  "observation_uri w = EXDATA (''Observation_'' @ w)"

section \<open>The shapes of column names\<close>

text \<open>
  The shapes the specification names, written over the text of a column name. A
  location is one or more letters followed by one or more digits. A name has the
  shape prefix, location, underscore, rest when something follows the underscore. A
  bare location name is the prefix and a location with nothing more, or with only an
  underscore or only a newline after it.
\<close>

definition is_location :: "string \<Rightarrow> bool" where
  "is_location loc \<longleftrightarrow>
     (\<exists>ls ds. loc = ls @ ds \<and> ls \<noteq> [] \<and> ds \<noteq> []
        \<and> list_all is_ascii_letter ls \<and> list_all is_ascii_digit ds)"

definition property_shape :: "string \<Rightarrow> bool" where
  "property_shape name \<longleftrightarrow>
     (\<exists>loc rest. name = ''DE_KN_'' @ loc @ ''_'' @ rest \<and> is_location loc \<and> rest \<noteq> [])"

definition bare_location :: "string \<Rightarrow> bool" where
  "bare_location name \<longleftrightarrow>
     (\<exists>loc. is_location loc
        \<and> (name = ''DE_KN_'' @ loc \<or> name = ''DE_KN_'' @ loc @ ''_''
             \<or> name = ''DE_KN_'' @ loc @ [newline]))"

section \<open>Tables used as examples\<close>

definition row_of :: "(string \<times> 'n cell) list \<Rightarrow> 'n row" where
  \<comment> \<open>a row from its cells; a column not listed holds a missing value\<close>
  "row_of cells = (\<lambda>k. case map_of cells k of Some v \<Rightarrow> v | None \<Rightarrow> NaN)"

definition example_lib :: "(real, real) pylib" where
  \<comment> \<open>numbers are reals here, and \<open>float\<close> of a number is the number, up to the
      range of a float: a number of magnitude \<open>2 ^ 1024\<close> or more is an int too large
      for a float. Of the texts, \<open>float\<close> is given for \<open>3.5\<close> only, all the examples
      need\<close>
  "example_lib =
     \<lparr>float_of_str = (\<lambda>s. if s = ''3.5'' then Some 3.5 else None),
      float_of_num = (\<lambda>x. if \<bar>x\<bar> < 2 ^ 1024 then Some x else None),
      str_of_num = (\<lambda>x. ''number'')\<rparr>"

definition grid_table :: "real cell \<Rightarrow> real cell \<Rightarrow> real dataframe" where
  \<comment> \<open>header \<open>utc_timestamp, interpolated, DE_KN_Building1_Grid_import\<close> and one row\<close>
  "grid_table marker v =
     \<lparr>columns = [''utc_timestamp'', ''interpolated'', ''DE_KN_Building1_Grid_import''],
      rows = [row_of [(''utc_timestamp'', Str ''2015-01-01T00:00:00Z''),
                      (''interpolated'', marker),
                      (''DE_KN_Building1_Grid_import'', v)]]\<rparr>"

definition twin_table :: "real dataframe" where
  \<comment> \<open>two columns whose names differ in a character that is replaced\<close>
  "twin_table =
     \<lparr>columns = [''utc_timestamp'', ''interpolated'',
                 ''DE_KN_Building1_Grid-import'', ''DE_KN_Building1_Grid.import''],
      rows = [row_of [(''utc_timestamp'', Str ''2015-01-01T00:00:00Z''),
                      (''DE_KN_Building1_Grid-import'', Num 3.5),
                      (''DE_KN_Building1_Grid.import'', Str ''error'')]]\<rparr>"

definition nan_table :: "real dataframe" where
  \<comment> \<open>the marker of the row is the text \<open>NAN\<close>, which \<open>read_csv\<close> keeps as a text\<close>
  "nan_table =
     \<lparr>columns = [''utc_timestamp'', ''interpolated'', ''DE_KN_NAN''],
      rows = [row_of [(''utc_timestamp'', Str ''2015-01-01T00:00:00Z''),
                      (''interpolated'', Str ''NAN''),
                      (''DE_KN_NAN'', Num 3.5)]]\<rparr>"

definition calm_env :: "(real, real) environment" where
  \<comment> \<open>one file, \<open>in.csv\<close>, holding the table of one reading; serialising never fails\<close>
  "calm_env =
     \<lparr>read_csv = (\<lambda>path. if path = ''in.csv'' then Some (grid_table NaN (Num 3.5))
                          else None),
      serialize = (\<lambda>g path. True)\<rparr>"

definition full_disk_env :: "(real, real) environment" where
  \<comment> \<open>the same file; serialising always fails\<close>
  "full_disk_env =
     \<lparr>read_csv = (\<lambda>path. if path = ''in.csv'' then Some (grid_table NaN (Num 3.5))
                          else None),
      serialize = (\<lambda>g path. False)\<rparr>"

definition too_large :: real where
  \<comment> \<open>an int of 401 digits\<close>
  "too_large = 10 ^ 400"

definition overflow_table :: "real dataframe" where
  \<comment> \<open>three measurement columns; the cell of the second is the int \<open>10 ^ 400\<close>\<close>
  "overflow_table =
     \<lparr>columns = [''utc_timestamp'', ''interpolated'', ''DE_KN_Building1_Grid_import'',
                 ''DE_KN_Building2_Grid_import'', ''DE_KN_Building3_Grid_import''],
      rows = [row_of [(''utc_timestamp'', Str ''2015-01-01T00:00:00Z''),
                      (''DE_KN_Building1_Grid_import'', Num 3.5),
                      (''DE_KN_Building2_Grid_import'', Num too_large),
                      (''DE_KN_Building3_Grid_import'', Num 2.5)]]\<rparr>"

section \<open>Identities of different kinds never coincide\<close>

lemma sensor_uri_form:
  "get_sensor_uri c = URIRef (''http://example.com/data/Sensor_'' @ sanitize_for_uri c)"
  by (simp add: get_sensor_uri_def EXDATA_def)

lemma property_uri_form:
  "get_property_uri c = URIRef (''http://example.com/Property_'' @
     (case match_property c of Some g1 \<Rightarrow> sanitize_for_uri g1 | None \<Rightarrow> sanitize_for_uri c))"
  by (simp add: get_property_uri_def EX_ns_def)

lemma foi_uri_form:
  "get_feature_of_interest_uri c = Some f
     \<Longrightarrow> \<exists>z. f = URIRef (''http://example.com/data/Location_'' @ z)"
  by (auto simp: get_feature_of_interest_uri_def EXDATA_def split: option.splits)

lemma sensor_neq_property: "get_sensor_uri a \<noteq> get_property_uri b"
  by (simp add: sensor_uri_form property_uri_form)

lemma property_neq_sensor: "get_property_uri b \<noteq> get_sensor_uri a"
  by (simp add: sensor_uri_form property_uri_form)

lemma foi_neq_sensor: "get_feature_of_interest_uri a = Some f \<Longrightarrow> f \<noteq> get_sensor_uri b"
  by (auto simp: sensor_uri_form dest!: foi_uri_form)

lemma foi_neq_property: "get_feature_of_interest_uri a = Some f \<Longrightarrow> f \<noteq> get_property_uri b"
  by (auto simp: property_uri_form dest!: foi_uri_form)

lemma declare_column_eq:
  "declare_column col sn =
     ((if get_sensor_uri col \<notin> defined_sensors sn then sensor_decl col else [])
      @ (if get_property_uri col \<notin> defined_properties sn then property_decl col else [])
      @ (case get_feature_of_interest_uri col of
           None \<Rightarrow> []
         | Some f \<Rightarrow> if f \<notin> defined_fois sn then foi_decl f else []),
      \<lparr>defined_sensors = insert (get_sensor_uri col) (defined_sensors sn),
       defined_properties = insert (get_property_uri col) (defined_properties sn),
       defined_fois = (case get_feature_of_interest_uri col of
                         None \<Rightarrow> defined_fois sn
                       | Some f \<Rightarrow> insert f (defined_fois sn))\<rparr>)"
  by (cases sn) (auto simp: declare_column_def Let_def sensor_decl_def property_decl_def foi_decl_def
        insert_absorb split: option.splits)

lemma seen_declare_column:
  "defined_sensors (snd (declare_column col sn)) = insert (get_sensor_uri col) (defined_sensors sn)"
  "defined_properties (snd (declare_column col sn)) = insert (get_property_uri col) (defined_properties sn)"
  "defined_fois (snd (declare_column col sn)) =
     (case get_feature_of_interest_uri col of None \<Rightarrow> defined_fois sn | Some f \<Rightarrow> insert f (defined_fois sn))"
  by (simp_all add: declare_column_eq)

lemma about_Nil: "about s [] = []"
  by (simp add: about_def)

lemma about_append: "about s (xs @ ys) = about s xs @ about s ys"
  by (simp add: about_def)

lemma about_sensor_decl:
  "about s (sensor_decl col) = (if get_sensor_uri col = s then sensor_decl col else [])"
  by (simp add: about_def sensor_decl_def)

lemma about_property_decl:
  "about s (property_decl col) = (if get_property_uri col = s then property_decl col else [])"
  by (simp add: about_def property_decl_def)

lemma about_foi_decl:
  "about s (foi_decl f) = (if f = s then foi_decl f else [])"
  by (simp add: about_def foi_decl_def)

lemmas about_simps = about_Nil about_append about_sensor_decl about_property_decl about_foi_decl

lemma about_sensor_declare_column:
  "about (get_sensor_uri c) (fst (declare_column col sn)) =
     (if (get_sensor_uri col :: ('n, 'f) node) = get_sensor_uri c \<and> get_sensor_uri col \<notin> defined_sensors sn
      then sensor_decl col else [])"
  for sn :: "('n, 'f) seen"
proof -
  have p: "get_property_uri col \<noteq> (get_sensor_uri c :: ('n, 'f) node)"
    by (rule property_neq_sensor)
  have f: "\<And>f. get_feature_of_interest_uri col = Some f \<Longrightarrow> f \<noteq> (get_sensor_uri c :: ('n, 'f) node)"
    by (rule foi_neq_sensor)
  show ?thesis
    by (cases "get_feature_of_interest_uri col :: ('n, 'f) node option")
       (simp_all add: declare_column_eq about_simps p f)
qed

lemma about_property_declare_column:
  "about (get_property_uri c) (fst (declare_column col sn)) =
     (if (get_property_uri col :: ('n, 'f) node) = get_property_uri c \<and> get_property_uri col \<notin> defined_properties sn
      then property_decl col else [])"
  for sn :: "('n, 'f) seen"
proof -
  have p: "get_sensor_uri col \<noteq> (get_property_uri c :: ('n, 'f) node)"
    by (rule sensor_neq_property)
  have f: "\<And>f. get_feature_of_interest_uri col = Some f \<Longrightarrow> f \<noteq> (get_property_uri c :: ('n, 'f) node)"
    by (rule foi_neq_property)
  show ?thesis
    by (cases "get_feature_of_interest_uri col :: ('n, 'f) node option")
       (simp_all add: declare_column_eq about_simps p f)
qed

lemma about_foi_declare_column:
  fixes sn :: "('n, 'f) seen"
  assumes "get_feature_of_interest_uri c = Some f"
  shows "about f (fst (declare_column col sn)) =
     (if get_feature_of_interest_uri col = Some f \<and> f \<notin> defined_fois sn
      then foi_decl f else [])"
proof -
  have s: "get_sensor_uri col \<noteq> f"
    using foi_neq_sensor [OF assms, of col] by simp
  have p: "get_property_uri col \<noteq> f"
    using foi_neq_property [OF assms, of col] by simp
  show ?thesis
    by (cases "get_feature_of_interest_uri col :: ('n, 'f) node option")
       (simp_all add: declare_column_eq about_simps p s)
qed

lemma about_sensor_declare_entities:
  "about (get_sensor_uri c) (declare_entities cols sn) =
     (if get_sensor_uri c \<in> defined_sensors sn then []
      else (case find (\<lambda>x. (get_sensor_uri x :: ('n, 'f) node) = get_sensor_uri c) cols of
              None \<Rightarrow> []
            | Some c0 \<Rightarrow> sensor_decl c0))"
  for sn :: "('n, 'f) seen"
proof (induction cols arbitrary: sn)
  case Nil
  then show ?case by (simp add: about_def)
next
  case (Cons col cols)
  obtain ts sn' where d: "declare_column col sn = (ts, sn')"
    by (cases "declare_column col sn")
  have ts: "about (get_sensor_uri c) ts =
     (if (get_sensor_uri col :: ('n, 'f) node) = get_sensor_uri c \<and> get_sensor_uri col \<notin> defined_sensors sn
      then sensor_decl col else [])"
    using about_sensor_declare_column [of c col sn] d by simp
  have sn': "defined_sensors sn' = insert (get_sensor_uri col) (defined_sensors sn)"
    using seen_declare_column(1) [of col sn] d by simp
  show ?case
    by (auto simp: d about_append ts sn' Cons.IH)
qed

lemma about_property_declare_entities:
  "about (get_property_uri c) (declare_entities cols sn) =
     (if get_property_uri c \<in> defined_properties sn then []
      else (case find (\<lambda>x. (get_property_uri x :: ('n, 'f) node) = get_property_uri c) cols of
              None \<Rightarrow> []
            | Some c0 \<Rightarrow> property_decl c0))"
  for sn :: "('n, 'f) seen"
proof (induction cols arbitrary: sn)
  case Nil
  then show ?case by (simp add: about_def)
next
  case (Cons col cols)
  obtain ts sn' where d: "declare_column col sn = (ts, sn')"
    by (cases "declare_column col sn")
  have ts: "about (get_property_uri c) ts =
     (if (get_property_uri col :: ('n, 'f) node) = get_property_uri c \<and> get_property_uri col \<notin> defined_properties sn
      then property_decl col else [])"
    using about_property_declare_column [of c col sn] d by simp
  have sn': "defined_properties sn' = insert (get_property_uri col) (defined_properties sn)"
    using seen_declare_column(2) [of col sn] d by simp
  show ?case
    by (auto simp: d about_append ts sn' Cons.IH)
qed

lemma about_foi_declare_entities:
  fixes sn :: "('n, 'f) seen"
  assumes "get_feature_of_interest_uri c = Some f"
  shows "about f (declare_entities cols sn) =
     (if f \<in> defined_fois sn then []
      else (case find (\<lambda>x. get_feature_of_interest_uri x = Some f) cols of
              None \<Rightarrow> []
            | Some c0 \<Rightarrow> foi_decl f))"
proof (induction cols arbitrary: sn)
  case Nil
  then show ?case by (simp add: about_def)
next
  case (Cons col cols)
  obtain ts sn' where d: "declare_column col sn = (ts, sn')"
    by (cases "declare_column col sn")
  have ts: "about f ts =
     (if get_feature_of_interest_uri col = Some f \<and> f \<notin> defined_fois sn
      then foi_decl f else [])"
    using about_foi_declare_column [OF assms, of col sn] d by simp
  have sn': "defined_fois sn' =
     (case get_feature_of_interest_uri col of None \<Rightarrow> defined_fois sn | Some f \<Rightarrow> insert f (defined_fois sn))"
    using seen_declare_column(3) [of col sn] d by simp
  show ?case
    by (cases "get_feature_of_interest_uri col :: ('n, 'f) node option")
       (auto simp: d about_append ts sn' Cons.IH)
qed

lemma observation_neq_sensor: "observation_uri w \<noteq> get_sensor_uri c"
  by (simp add: observation_uri_def sensor_uri_form EXDATA_def)

lemma observation_neq_property: "observation_uri w \<noteq> get_property_uri c"
  by (simp add: observation_uri_def property_uri_form EXDATA_def)

lemma observation_neq_foi: "get_feature_of_interest_uri c = Some f \<Longrightarrow> observation_uri w \<noteq> f"
  by (auto simp: observation_uri_def EXDATA_def dest!: foi_uri_form)

lemma about_observation_triples:
  "(\<And>w. s \<noteq> observation_uri w) \<Longrightarrow> about s (observation_triples col lib ts v) = []"
  by (cases "get_feature_of_interest_uri col :: ('n, 'f) node option")
     (auto simp: about_def observation_triples_def Let_def observation_uri_def)

lemma about_observe_column:
  "(\<And>w. s \<noteq> observation_uri w) \<Longrightarrow> about s (fst (observe_column lib cols row ts excl col)) = []"
  by (auto simp: observe_column_def about_Nil about_observation_triples
        split: sum.splits cell.splits option.splits)

lemma about_observe_columns:
  "(\<And>w. s \<noteq> observation_uri w) \<Longrightarrow> about s (fst (observe_columns lib cols row ts excl mcols)) = []"
proof (induction mcols)
  case Nil
  then show ?case by (simp add: about_Nil)
next
  case (Cons col mcols)
  have a: "about s (fst (observe_column lib cols row ts excl col)) = []"
    using Cons.prems by (rule about_observe_column)
  show ?case
    using a Cons
    by (auto simp: about_append about_Nil split: prod.splits option.splits)
qed

lemma about_row_body:
  "(\<And>w. s \<noteq> observation_uri w) \<Longrightarrow> about s (fst (row_body lib cols mcols row)) = []"
  by (auto simp: row_body_def about_Nil about_observe_columns split: sum.splits)

lemma about_process_rows:
  "(\<And>w. s \<noteq> observation_uri w)
     \<Longrightarrow> about s (fst (process_rows lib cols mcols i rws (g, printed))) = about s g"
proof (induction rws arbitrary: i g printed)
  case Nil
  then show ?case by simp
next
  case (Cons row rws)
  have a: "about s (fst (row_body lib cols mcols row)) = []"
    using Cons.prems by (rule about_row_body)
  obtain added x where r: "row_body lib cols mcols row = (added, x)"
    by (cases "row_body lib cols mcols row")
  show ?case
    using a Cons r by (cases x) (simp_all add: about_append)
qed

lemma about_sensor_build_graph:
  "about (get_sensor_uri c) (fst (build_graph lib df)) =
     (case find (\<lambda>x. (get_sensor_uri x :: ('n, 'f) node) = get_sensor_uri c)
             (measurement_columns (columns df)) of
        None \<Rightarrow> []
      | Some c0 \<Rightarrow> sensor_decl c0)"
  for lib :: "('n, 'f) pylib"
proof -
  have "\<And>w. (get_sensor_uri c :: ('n, 'f) node) \<noteq> observation_uri w"
    using observation_neq_sensor by metis
  then show ?thesis
    by (simp add: build_graph_def Let_def about_process_rows about_sensor_declare_entities no_seen_def)
qed

lemma about_property_build_graph:
  "about (get_property_uri c) (fst (build_graph lib df)) =
     (case find (\<lambda>x. (get_property_uri x :: ('n, 'f) node) = get_property_uri c)
             (measurement_columns (columns df)) of
        None \<Rightarrow> []
      | Some c0 \<Rightarrow> property_decl c0)"
  for lib :: "('n, 'f) pylib"
proof -
  have "\<And>w. (get_property_uri c :: ('n, 'f) node) \<noteq> observation_uri w"
    using observation_neq_property by metis
  then show ?thesis
    by (simp add: build_graph_def Let_def about_process_rows about_property_declare_entities no_seen_def)
qed

lemma about_foi_build_graph:
  fixes lib :: "('n, 'f) pylib"
  assumes "get_feature_of_interest_uri c = Some f"
  shows "about f (fst (build_graph lib df)) =
     (case find (\<lambda>x. get_feature_of_interest_uri x = Some f) (measurement_columns (columns df)) of
        None \<Rightarrow> []
      | Some c0 \<Rightarrow> foi_decl f)"
proof -
  have "\<And>w. f \<noteq> observation_uri w"
    using observation_neq_foi [OF assms] by metis
  then show ?thesis
    by (simp add: build_graph_def Let_def about_process_rows
          about_foi_declare_entities [OF assms] no_seen_def)
qed

lemma statements_about: "statements s p g = filter (\<lambda>t. fst (snd t) = p) (about s g)"
  by (simp add: statements_def about_def conj_commute)

lemma type_neq_label: "RDF_type \<noteq> RDFS_label"
  by (simp add: RDF_type_def RDFS_label_def)

lemma find_first_exists:
  "x \<in> set xs \<Longrightarrow> P x \<Longrightarrow> \<exists>y. find P xs = Some y \<and> P y"
  by (induction xs) auto

section \<open>Evaluating the model on the example tables\<close>

lemmas eval_defs =
  build_graph_def grid_table_def twin_table_def row_of_def measurement_columns_def no_seen_def
  declare_column_def get_sensor_uri_def get_property_uri_def get_feature_of_interest_uri_def
  match_foi_def match_property_def match_location_def sanitize_for_uri_def is_uri_safe_def
  is_ascii_letter_def is_ascii_digit_def EXDATA_def EX_ns_def SAREF_def RDF_type_def
  RDFS_label_def foi_label_def newline_def row_body_def row_get_def
  interpolated_sensors_in_row_def observe_column_def observation_triples_def py_format_def
  Let_def example_lib_def

lemma twin_columns:
  "measurement_columns (columns twin_table)
     = [''DE_KN_Building1_Grid-import'', ''DE_KN_Building1_Grid.import'']"
  by (simp add: twin_table_def measurement_columns_def)

section \<open>Deduplicated declarations\<close>

text \<open>
  Claim C2. Take any table and any of its measurement columns. Over the whole run (the
  declarations and every row) the graph receives exactly one \<open>rdf:type\<close> statement and
  exactly one \<open>rdfs:label\<close> statement for the column's Sensor identity, exactly one of
  each for its Property identity, and, when the column has a FeatureOfInterest, exactly
  one of each for that identity; this holds however many columns and rows lead to the
  same identity. The statements are counted in the list of calls of \<open>g.add\<close>, so a
  second call with an equal statement would count.
\<close>

theorem declared_once:
  fixes lib :: "('n, 'f) pylib" and df :: "'n dataframe"
  assumes "c \<in> set (measurement_columns (columns df))"
  shows "statements (get_sensor_uri c) RDF_type (fst (build_graph lib df))
           = [(get_sensor_uri c, RDF_type, SAREF ''Sensor'')]
       \<and> length (statements (get_sensor_uri c) RDFS_label (fst (build_graph lib df))) = 1
       \<and> statements (get_property_uri c) RDF_type (fst (build_graph lib df))
           = [(get_property_uri c, RDF_type, SAREF ''Property'')]
       \<and> length (statements (get_property_uri c) RDFS_label (fst (build_graph lib df))) = 1
       \<and> (\<forall>f. get_feature_of_interest_uri c = Some f \<longrightarrow>
             statements f RDF_type (fst (build_graph lib df))
               = [(f, RDF_type, SAREF ''FeatureOfInterest'')]
           \<and> length (statements f RDFS_label (fst (build_graph lib df))) = 1)"
proof -
  let ?g = "fst (build_graph lib df)"
  let ?m = "measurement_columns (columns df)"
  obtain c0 where c0: "find (\<lambda>x. (get_sensor_uri x :: ('n, 'f) node) = get_sensor_uri c) ?m = Some c0"
      and s0: "(get_sensor_uri c0 :: ('n, 'f) node) = get_sensor_uri c"
    using find_first_exists [OF assms, of "\<lambda>x. (get_sensor_uri x :: ('n, 'f) node) = get_sensor_uri c"]
    by auto
  have sensor: "about (get_sensor_uri c) ?g = (sensor_decl c0 :: ('n, 'f) triple list)"
    by (simp add: about_sensor_build_graph c0)
  obtain c1 where c1: "find (\<lambda>x. (get_property_uri x :: ('n, 'f) node) = get_property_uri c) ?m = Some c1"
      and p1: "(get_property_uri c1 :: ('n, 'f) node) = get_property_uri c"
    using find_first_exists [OF assms, of "\<lambda>x. (get_property_uri x :: ('n, 'f) node) = get_property_uri c"]
    by auto
  have property: "about (get_property_uri c) ?g = (property_decl c1 :: ('n, 'f) triple list)"
    by (simp add: about_property_build_graph c1)
  have foi: "about f ?g = foi_decl f" if f: "get_feature_of_interest_uri c = Some f" for f
  proof -
    obtain c2 where "find (\<lambda>x. get_feature_of_interest_uri x = Some f) ?m = Some c2"
      using find_first_exists [OF assms, of "\<lambda>x. get_feature_of_interest_uri x = Some f"] f
      by auto
    then show ?thesis by (simp add: about_foi_build_graph [OF f])
  qed
  have l: "(RDFS_label :: ('n, 'f) node) \<noteq> RDF_type"
    "(SAREF ''measuresProperty'' :: ('n, 'f) node) \<noteq> RDF_type"
    "(SAREF ''measuresProperty'' :: ('n, 'f) node) \<noteq> RDFS_label"
    "(RDF_type :: ('n, 'f) node) \<noteq> RDFS_label"
    by (simp_all add: RDF_type_def RDFS_label_def SAREF_def)
  have 1: "statements (get_sensor_uri c) RDF_type ?g = [(get_sensor_uri c, RDF_type, SAREF ''Sensor'')]"
    by (simp add: statements_about sensor sensor_decl_def s0 l)
  have 2: "length (statements (get_sensor_uri c) RDFS_label ?g) = 1"
    using l by (simp add: statements_about sensor sensor_decl_def s0 l)
  have 3: "statements (get_property_uri c) RDF_type ?g = [(get_property_uri c, RDF_type, SAREF ''Property'')]"
    by (simp add: statements_about property property_decl_def p1 l)
  have 4: "length (statements (get_property_uri c) RDFS_label ?g) = 1"
    using l by (simp add: statements_about property property_decl_def p1 l)
  have 5: "statements f RDF_type ?g = [(f, RDF_type, SAREF ''FeatureOfInterest'')]
           \<and> length (statements f RDFS_label ?g) = 1"
    if f: "get_feature_of_interest_uri c = Some f" for f
    using l by (simp add: statements_about foi [OF f] foi_decl_def l)
  show ?thesis
    using 1 2 3 4 5 by blast
qed

text \<open>
  The table \<open>twin_table\<close> has two columns with one Sensor, Property and
  FeatureOfInterest identity; each identity is declared once.
\<close>

theorem declared_once_witness:
  "''DE_KN_Building1_Grid.import'' \<in> set (measurement_columns (columns twin_table))
   \<and> statements (EXDATA ''Sensor_Building1_Grid_import'') RDF_type
         (fst (build_graph example_lib twin_table))
       = [(EXDATA ''Sensor_Building1_Grid_import'', RDF_type, SAREF ''Sensor'')]
   \<and> length (statements (EXDATA ''Sensor_Building1_Grid_import'') RDFS_label
         (fst (build_graph example_lib twin_table))) = 1
   \<and> length (statements (EX_ns ''Property_Grid_import'') RDFS_label
         (fst (build_graph example_lib twin_table))) = 1
   \<and> length (statements (EXDATA ''Location_Building1'') RDFS_label
         (fst (build_graph example_lib twin_table))) = 1"
proof -
  have h: "''DE_KN_Building1_Grid.import'' \<in> set (measurement_columns (columns twin_table))"
    by (simp add: twin_columns)
  have s: "(get_sensor_uri ''DE_KN_Building1_Grid.import'' :: (real, real) node)
             = EXDATA ''Sensor_Building1_Grid_import''"
    by (simp add: eval_defs)
  have p: "(get_property_uri ''DE_KN_Building1_Grid.import'' :: (real, real) node)
             = EX_ns ''Property_Grid_import''"
    by (simp add: eval_defs)
  have f: "(get_feature_of_interest_uri ''DE_KN_Building1_Grid.import'' :: (real, real) node option)
             = Some (EXDATA ''Location_Building1'')"
    by (simp add: eval_defs)
  show ?thesis
    using h declared_once [OF h, of example_lib] by (simp add: s p f)
qed

text \<open>
  Claim C10. Let \<open>c\<close> be a measurement column, \<open>c0\<close> the first measurement column in
  header order with the Sensor identity of \<open>c\<close>, and \<open>c1\<close> the first with its Property
  identity. All the statements of the run about the Sensor are its type, the label
  \<open>Sensor for c0\<close> and the \<open>measuresProperty\<close> link to the Property of \<open>c0\<close>; all the
  statements about the Property are its type and the label \<open>Property measured by c1\<close>.
  So a later column with the same identity adds no label and no link.
\<close>

theorem first_column_declares:
  fixes lib :: "('n, 'f) pylib" and df :: "'n dataframe"
  assumes "c \<in> set (measurement_columns (columns df))"
  shows "\<exists>c0 c1.
           find (\<lambda>x. (get_sensor_uri x :: ('n, 'f) node) = get_sensor_uri c)
                (measurement_columns (columns df)) = Some c0
         \<and> about (get_sensor_uri c) (fst (build_graph lib df))
             = [(get_sensor_uri c, RDF_type, SAREF ''Sensor''),
                (get_sensor_uri c, RDFS_label, Literal (''Sensor for '' @ c0)),
                (get_sensor_uri c, SAREF ''measuresProperty'', get_property_uri c0)]
         \<and> find (\<lambda>x. (get_property_uri x :: ('n, 'f) node) = get_property_uri c)
                (measurement_columns (columns df)) = Some c1
         \<and> about (get_property_uri c) (fst (build_graph lib df))
             = [(get_property_uri c, RDF_type, SAREF ''Property''),
                (get_property_uri c, RDFS_label, Literal (''Property measured by '' @ c1))]"
proof -
  let ?m = "measurement_columns (columns df)"
  obtain c0 where c0: "find (\<lambda>x. (get_sensor_uri x :: ('n, 'f) node) = get_sensor_uri c) ?m = Some c0"
      and s0: "(get_sensor_uri c0 :: ('n, 'f) node) = get_sensor_uri c"
    using find_first_exists [OF assms, of "\<lambda>x. (get_sensor_uri x :: ('n, 'f) node) = get_sensor_uri c"]
    by auto
  obtain c1 where c1: "find (\<lambda>x. (get_property_uri x :: ('n, 'f) node) = get_property_uri c) ?m = Some c1"
      and p1: "(get_property_uri c1 :: ('n, 'f) node) = get_property_uri c"
    using find_first_exists [OF assms, of "\<lambda>x. (get_property_uri x :: ('n, 'f) node) = get_property_uri c"]
    by auto
  have "about (get_sensor_uri c) (fst (build_graph lib df))
          = [(get_sensor_uri c, RDF_type, SAREF ''Sensor''),
             (get_sensor_uri c, RDFS_label, Literal (''Sensor for '' @ c0)),
             (get_sensor_uri c, SAREF ''measuresProperty'', get_property_uri c0)]"
    by (simp add: about_sensor_build_graph c0 sensor_decl_def s0)
  moreover have "about (get_property_uri c) (fst (build_graph lib df))
          = [(get_property_uri c, RDF_type, SAREF ''Property''),
             (get_property_uri c, RDFS_label, Literal (''Property measured by '' @ c1))]"
    by (simp add: about_property_build_graph c1 property_decl_def p1)
  ultimately show ?thesis
    using c0 c1 by blast
qed

text \<open>
  In \<open>twin_table\<close> the column \<open>DE_KN_Building1_Grid.import\<close> comes second; the labels
  name the first column, \<open>DE_KN_Building1_Grid-import\<close>.
\<close>

theorem first_column_declares_witness:
  "''DE_KN_Building1_Grid.import'' \<in> set (measurement_columns (columns twin_table))
   \<and> about (EXDATA ''Sensor_Building1_Grid_import'') (fst (build_graph example_lib twin_table))
       = [(EXDATA ''Sensor_Building1_Grid_import'', RDF_type, SAREF ''Sensor''),
          (EXDATA ''Sensor_Building1_Grid_import'', RDFS_label,
             Literal ''Sensor for DE_KN_Building1_Grid-import''),
          (EXDATA ''Sensor_Building1_Grid_import'', SAREF ''measuresProperty'',
             EX_ns ''Property_Grid_import'')]
   \<and> about (EX_ns ''Property_Grid_import'') (fst (build_graph example_lib twin_table))
       = [(EX_ns ''Property_Grid_import'', RDF_type, SAREF ''Property''),
          (EX_ns ''Property_Grid_import'', RDFS_label,
             Literal ''Property measured by DE_KN_Building1_Grid-import'')]"
proof -
  have h: "''DE_KN_Building1_Grid.import'' \<in> set (measurement_columns (columns twin_table))"
    by (simp add: twin_columns)
  have s: "(get_sensor_uri ''DE_KN_Building1_Grid.import'' :: (real, real) node)
             = EXDATA ''Sensor_Building1_Grid_import''"
    "(get_sensor_uri ''DE_KN_Building1_Grid-import'' :: (real, real) node)
             = EXDATA ''Sensor_Building1_Grid_import''"
    by (simp_all add: eval_defs)
  have p: "(get_property_uri ''DE_KN_Building1_Grid.import'' :: (real, real) node)
             = EX_ns ''Property_Grid_import''"
     "(get_property_uri ''DE_KN_Building1_Grid-import'' :: (real, real) node)
             = EX_ns ''Property_Grid_import''"
    by (simp_all add: eval_defs)
  show ?thesis
    using h first_column_declares [OF h, of example_lib]
    by (simp add: s p twin_columns)
qed

section \<open>The example of one reading\<close>

lemma grid_graph:
  "build_graph \<lparr>float_of_str = fs, float_of_num = (\<lambda>x::real. Some x), str_of_num = sn\<rparr>
     (grid_table NaN (Num 3.5))
   = ([(EXDATA ''Sensor_Building1_Grid_import'', RDF_type, SAREF ''Sensor''),
       (EXDATA ''Sensor_Building1_Grid_import'', RDFS_label,
          Literal ''Sensor for DE_KN_Building1_Grid_import''),
       (EXDATA ''Sensor_Building1_Grid_import'', SAREF ''measuresProperty'',
          EX_ns ''Property_Grid_import''),
       (EX_ns ''Property_Grid_import'', RDF_type, SAREF ''Property''),
       (EX_ns ''Property_Grid_import'', RDFS_label,
          Literal ''Property measured by DE_KN_Building1_Grid_import''),
       (EXDATA ''Location_Building1'', RDF_type, SAREF ''FeatureOfInterest''),
       (EXDATA ''Location_Building1'', RDFS_label, Literal ''Location Building1''),
       (observation_uri ''Building1_Grid_import_2015-01-01T00:00:00Z'', RDF_type,
          SAREF ''Observation''),
       (observation_uri ''Building1_Grid_import_2015-01-01T00:00:00Z'', SAREF ''hasTimestamp'',
          Literal_dateTime (Str ''2015-01-01T00:00:00Z'')),
       (observation_uri ''Building1_Grid_import_2015-01-01T00:00:00Z'', SAREF ''hasValue'',
          Literal_float 3.5),
       (observation_uri ''Building1_Grid_import_2015-01-01T00:00:00Z'', SAREF ''madeBySensor'',
          EXDATA ''Sensor_Building1_Grid_import''),
       (observation_uri ''Building1_Grid_import_2015-01-01T00:00:00Z'',
          SAREF ''relatesToProperty'', EX_ns ''Property_Grid_import''),
       (observation_uri ''Building1_Grid_import_2015-01-01T00:00:00Z'', SAREF ''isAbout'',
          EXDATA ''Location_Building1'')],
      [])"
  by (simp add: eval_defs observation_uri_def)

text \<open>
  Claim C1. The header is \<open>utc_timestamp, interpolated, DE_KN_Building1_Grid_import\<close>
  and the one row is \<open>2015-01-01T00:00:00Z, nan, 3.5\<close>; \<open>read_csv\<close> delivers the marker
  \<open>nan\<close> as a missing value and \<open>3.5\<close> as a number, for which \<open>float\<close> is the number
  itself. The graph then has exactly one Sensor, \<open>Sensor_Building1_Grid_import\<close>, one
  Property, \<open>Property_Grid_import\<close>, one FeatureOfInterest, \<open>Location_Building1\<close>, and
  one Observation; the value of the Observation is the float 3.5, and its
  \<open>madeBySensor\<close>, \<open>relatesToProperty\<close> and \<open>isAbout\<close> links go to these three. No
  row diagnostic is printed.
\<close>

theorem single_reading:
  "(let run = build_graph \<lparr>float_of_str = fs, float_of_num = (\<lambda>x::real. Some x), str_of_num = sn\<rparr>
                (grid_table NaN (Num 3.5));
        g = fst run;
        obs = observation_uri ''Building1_Grid_import_2015-01-01T00:00:00Z''
    in instances_of (SAREF ''Sensor'') g = [EXDATA ''Sensor_Building1_Grid_import'']
     \<and> instances_of (SAREF ''Property'') g = [EX_ns ''Property_Grid_import'']
     \<and> instances_of (SAREF ''FeatureOfInterest'') g = [EXDATA ''Location_Building1'']
     \<and> instances_of (SAREF ''Observation'') g = [obs]
     \<and> objects_of obs (SAREF ''hasValue'') g = [Literal_float 3.5]
     \<and> objects_of obs (SAREF ''madeBySensor'') g = [EXDATA ''Sensor_Building1_Grid_import'']
     \<and> objects_of obs (SAREF ''relatesToProperty'') g = [EX_ns ''Property_Grid_import'']
     \<and> objects_of obs (SAREF ''isAbout'') g = [EXDATA ''Location_Building1'']
     \<and> snd run = [])"
  unfolding grid_graph Let_def
  by (simp add: instances_of_def objects_of_def statements_def observation_uri_def
        EXDATA_def EX_ns_def SAREF_def RDF_type_def RDFS_label_def)

section \<open>The statements of an observation\<close>

lemma SAREF_inject: "(SAREF a :: ('n, 'f) node) = SAREF b \<longleftrightarrow> a = b"
  by (simp add: SAREF_def)

lemma RDF_type_neq_SAREF:
  "(RDF_type :: ('n, 'f) node) \<noteq> SAREF a" "(SAREF a :: ('n, 'f) node) \<noteq> RDF_type"
  by (simp_all add: SAREF_def RDF_type_def)

lemma observation_triples_split:
  "observation_triples col lib ts v =
     [(observation_uri (sanitize_for_uri col @ ''_'' @ py_format lib ts), RDF_type, SAREF ''Observation''),
      (observation_uri (sanitize_for_uri col @ ''_'' @ py_format lib ts), SAREF ''hasTimestamp'', Literal_dateTime ts),
      (observation_uri (sanitize_for_uri col @ ''_'' @ py_format lib ts), SAREF ''hasValue'', Literal_float v),
      (observation_uri (sanitize_for_uri col @ ''_'' @ py_format lib ts), SAREF ''madeBySensor'', get_sensor_uri col),
      (observation_uri (sanitize_for_uri col @ ''_'' @ py_format lib ts), SAREF ''relatesToProperty'', get_property_uri col)]
     @ (case get_feature_of_interest_uri col of
          None \<Rightarrow> []
        | Some f \<Rightarrow> [(observation_uri (sanitize_for_uri col @ ''_'' @ py_format lib ts), SAREF ''isAbout'', f)])"
  for lib :: "('n, 'f) pylib"
  by (cases "get_feature_of_interest_uri col :: ('n, 'f) node option")
     (simp_all add: observation_triples_def Let_def observation_uri_def)

lemma made_by_observation_triples:
  "t \<in> set (observation_triples col lib ts v) \<Longrightarrow> fst (snd t) = SAREF ''madeBySensor''
     \<Longrightarrow> snd (snd t) = get_sensor_uri col"
  by (cases "get_feature_of_interest_uri col :: ('n, 'f) node option")
     (auto simp: observation_triples_split SAREF_inject RDF_type_neq_SAREF)

lemma made_by_observe_column:
  "t \<in> set (fst (observe_column lib cols row ts excl col)) \<Longrightarrow> fst (snd t) = SAREF ''madeBySensor''
     \<Longrightarrow> snd (snd t) \<notin> excl"
  by (auto simp: observe_column_def dest: made_by_observation_triples
        split: if_splits sum.splits cell.splits option.splits)

lemma made_by_observe_columns:
  "t \<in> set (fst (observe_columns lib cols row ts excl mcols))
     \<Longrightarrow> fst (snd t) = SAREF ''madeBySensor'' \<Longrightarrow> snd (snd t) \<notin> excl"
proof (induction mcols)
  case Nil
  then show ?case by simp
next
  case (Cons col mcols)
  obtain a x where c: "observe_column lib cols row ts excl col = (a, x)"
    by (cases "observe_column lib cols row ts excl col")
  obtain b y where d: "observe_columns lib cols row ts excl mcols = (b, y)"
    by (cases "observe_columns lib cols row ts excl mcols")
  have "t \<in> set a \<or> t \<in> set b"
    using Cons.prems(1) by (cases x) (auto simp: c d)
  then show ?case
  proof
    assume "t \<in> set a"
    then show ?thesis
      using made_by_observe_column [of t lib cols row ts excl col] Cons.prems(2) c by simp
  next
    assume "t \<in> set b"
    then show ?thesis
      using Cons.IH Cons.prems(2) d by simp
  qed
qed

lemma lower_NAN: "py_lower ''NAN'' = ''nan''"
  by code_simp

lemma lower_grid: "py_lower ''DE_KN_Building1_Grid_import'' \<noteq> ''nan''"
  by (simp add: py_lower_def)

section \<open>Interpolated readings\<close>

text \<open>
  Claim C3. A row has an interpolation list when its marker cell is a text other than
  the missing-value word \<open>nan\<close>, in any mix of cases; the tokens of the list are the
  pipe-delimited, trimmed pieces of that text. Let the Sensor identity of one of the
  tokens be the Sensor identity of the column \<open>c\<close>. Then the step for the row and \<open>c\<close>, run
  with the exclusion set of the row, adds nothing and raises nothing; and among all the
  statements the row adds for any list of columns, none says that an Observation was
  made by the Sensor of \<open>c\<close>.
\<close>

theorem interpolation_exclusion:
  fixes lib :: "('n, 'f) pylib"
  assumes "row ''interpolated'' = Str s"
      and "py_lower s \<noteq> ''nan''"
      and "tok \<in> set (map py_strip (py_split (CHR ''|'') s))"
      and "(get_sensor_uri tok :: ('n, 'f) node) = get_sensor_uri c"
  shows "(\<exists>excl. interpolated_sensors_in_row (row ''interpolated'') = Inr excl
            \<and> observe_column lib cols row ts excl c = ([], None))
       \<and> (\<forall>t \<in> set (fst (row_body lib cols mcols row)).
            \<not> (fst (snd t) = SAREF ''madeBySensor'' \<and> snd (snd t) = get_sensor_uri c))"
proof -
  let ?excl = "set (map get_sensor_uri (map py_strip (py_split (CHR ''|'') s))) :: ('n, 'f) node set"
  have i: "interpolated_sensors_in_row (row ''interpolated'') = Inr ?excl"
    using assms(1,2) by (simp add: interpolated_sensors_in_row_def)
  have "get_sensor_uri tok \<in> ?excl"
    using assms(3) by auto
  then have m: "get_sensor_uri c \<in> ?excl"
    using assms(4) by simp
  have 1: "observe_column lib cols row ts ?excl c = ([], None)"
    using m by (simp add: observe_column_def)
  have 2: "\<not> (fst (snd t) = SAREF ''madeBySensor'' \<and> snd (snd t) = get_sensor_uri c)"
    if t: "t \<in> set (fst (row_body lib cols mcols row))" for t
  proof (cases "''utc_timestamp'' \<in> set cols \<and> ''interpolated'' \<in> set cols")
    case True
    then have "row_body lib cols mcols row
                 = observe_columns lib cols row (row ''utc_timestamp'') ?excl mcols"
      using i by (simp add: row_body_def row_get_def)
    then show ?thesis
      using t m made_by_observe_columns [of t lib cols row "row ''utc_timestamp''" ?excl mcols]
      by auto
  next
    case False
    then have "fst (row_body lib cols mcols row) = []"
      by (auto simp: row_body_def row_get_def)
    then show ?thesis using t by simp
  qed
  show ?thesis
    using i 1 2 by blast
qed

text \<open>
  The second scenario of the specification: the marker names the one measurement
  column, and the run has no Observation.
\<close>

theorem interpolation_exclusion_witness:
  "hd (rows (grid_table (Str ''DE_KN_Building1_Grid_import'') (Num 3.5))) ''interpolated''
       = Str ''DE_KN_Building1_Grid_import''
   \<and> py_lower ''DE_KN_Building1_Grid_import'' \<noteq> ''nan''
   \<and> ''DE_KN_Building1_Grid_import''
       \<in> set (map py_strip (py_split (CHR ''|'') ''DE_KN_Building1_Grid_import''))
   \<and> (\<exists>excl. interpolated_sensors_in_row
                (hd (rows (grid_table (Str ''DE_KN_Building1_Grid_import'') (Num 3.5)))
                   ''interpolated'') = Inr excl
            \<and> observe_column example_lib
                (columns (grid_table (Str ''DE_KN_Building1_Grid_import'') (Num 3.5)))
                (hd (rows (grid_table (Str ''DE_KN_Building1_Grid_import'') (Num 3.5))))
                (Str ''2015-01-01T00:00:00Z'') excl ''DE_KN_Building1_Grid_import'' = ([], None))
   \<and> instances_of (SAREF ''Observation'')
        (fst (build_graph example_lib (grid_table (Str ''DE_KN_Building1_Grid_import'') (Num 3.5))))
       = []"
proof -
  let ?row = "hd (rows (grid_table (Str ''DE_KN_Building1_Grid_import'') (Num 3.5)))"
  have 1: "?row ''interpolated'' = Str ''DE_KN_Building1_Grid_import''"
    by (simp add: grid_table_def row_of_def)
  have 2: "''DE_KN_Building1_Grid_import''
       \<in> set (map py_strip (py_split (CHR ''|'') ''DE_KN_Building1_Grid_import''))"
    by (simp add: py_strip_def is_space_def)
  have 3: "(get_sensor_uri ''DE_KN_Building1_Grid_import'' :: (real, real) node)
             = get_sensor_uri ''DE_KN_Building1_Grid_import''"
    by simp
  have 4: "instances_of (SAREF ''Observation'')
        (fst (build_graph example_lib (grid_table (Str ''DE_KN_Building1_Grid_import'') (Num 3.5))))
       = []"
    by (simp add: eval_defs lower_grid py_strip_def is_space_def instances_of_def)
  note x = interpolation_exclusion [where row = ?row and s = "''DE_KN_Building1_Grid_import''"
      and tok = "''DE_KN_Building1_Grid_import''" and c = "''DE_KN_Building1_Grid_import''"
      and lib = example_lib
      and cols = "columns (grid_table (Str ''DE_KN_Building1_Grid_import'') (Num 3.5))"
      and ts = "Str ''2015-01-01T00:00:00Z''" and mcols = "[]", OF 1 lower_grid 2 3]
  show ?thesis
    using 1 lower_grid 2 4 x by blast
qed

section \<open>The missing-value word of the marker\<close>

text \<open>
  Claim C9. If the marker cell of a row is a text whose lower-case form is \<open>nan\<close>,
  the exclusion set of the row is empty, no column has its Sensor identity in it, and
  the row is processed as the loop over the measurement columns with the empty
  exclusion set.
\<close>

theorem nan_sentinel:
  fixes lib :: "('n, 'f) pylib"
  assumes "py_lower s = ''nan''"
  shows "interpolated_sensors_in_row (Str s) = (Inr {} :: py_exception + ('n, 'f) node set)
       \<and> (\<forall>excl c. interpolated_sensors_in_row (Str s) = Inr excl
             \<longrightarrow> (get_sensor_uri c :: ('n, 'f) node) \<notin> excl)
       \<and> (row ''interpolated'' = Str s \<and> ''utc_timestamp'' \<in> set cols
            \<and> ''interpolated'' \<in> set cols
          \<longrightarrow> row_body lib cols mcols row
                = observe_columns lib cols row (row ''utc_timestamp'') {} mcols)"
proof -
  have e: "interpolated_sensors_in_row (Str s) = (Inr {} :: py_exception + ('n, 'f) node set)"
    unfolding interpolated_sensors_in_row_def cell.case assms by simp
  have r: "row_body lib cols mcols row
             = observe_columns lib cols row (row ''utc_timestamp'') {} mcols"
    if "row ''interpolated'' = Str s" and "''utc_timestamp'' \<in> set cols"
      and "''interpolated'' \<in> set cols"
    unfolding row_body_def row_get_def using that by (simp add: e)
  show ?thesis
    using r by (simp add: e)
qed

text \<open>
  The marker \<open>NAN\<close> of \<open>nan_table\<close>.
\<close>

theorem nan_sentinel_witness:
  "py_lower ''NAN'' = ''nan''
   \<and> interpolated_sensors_in_row (Str ''NAN'') = (Inr {} :: py_exception + (real, real) node set)
   \<and> row_body example_lib (columns nan_table) (measurement_columns (columns nan_table))
         (hd (rows nan_table))
       = observe_columns example_lib (columns nan_table) (hd (rows nan_table))
           (Str ''2015-01-01T00:00:00Z'') {} (measurement_columns (columns nan_table))"
proof -
  have r: "hd (rows nan_table) ''interpolated'' = Str ''NAN''"
    "hd (rows nan_table) ''utc_timestamp'' = Str ''2015-01-01T00:00:00Z''"
    "''utc_timestamp'' \<in> set (columns nan_table)" "''interpolated'' \<in> set (columns nan_table)"
    by (simp_all add: nan_table_def row_of_def)
  show ?thesis
    using lower_NAN
      nan_sentinel [OF lower_NAN, of "hd (rows nan_table)" "columns nan_table" example_lib
        "measurement_columns (columns nan_table)"]
    by (simp add: r)
qed

section \<open>An int too large for a float\<close>

text \<open>
  The table \<open>overflow_table\<close> has one row and three measurement columns
  with the cells 3.5, \<open>10 ^ 400\<close> and 2.5. For the second cell \<open>float\<close> raises
  \<open>OverflowError\<close>, which \<open>except ValueError\<close> does not catch: the exception leaves
  the loop over the columns after the first column has added its Observation, and
  before the third column is looked at.
\<close>

lemma overflow_cells:
  "hd (rows overflow_table) ''utc_timestamp'' = Str ''2015-01-01T00:00:00Z''"
  "hd (rows overflow_table) ''interpolated'' = NaN"
  "hd (rows overflow_table) ''DE_KN_Building1_Grid_import'' = Num 3.5"
  "hd (rows overflow_table) ''DE_KN_Building2_Grid_import'' = Num too_large"
  "hd (rows overflow_table) ''DE_KN_Building3_Grid_import'' = Num 2.5"
  by (simp_all add: overflow_table_def row_of_def)

lemma overflow_columns:
  "columns overflow_table = [''utc_timestamp'', ''interpolated'', ''DE_KN_Building1_Grid_import'',
     ''DE_KN_Building2_Grid_import'', ''DE_KN_Building3_Grid_import'']"
  "measurement_columns (columns overflow_table) = [''DE_KN_Building1_Grid_import'',
     ''DE_KN_Building2_Grid_import'', ''DE_KN_Building3_Grid_import'']"
  "rows overflow_table = [hd (rows overflow_table)]"
  by (simp_all add: overflow_table_def measurement_columns_def)

lemma example_float_small: "\<bar>x\<bar> < 2 ^ 1024 \<Longrightarrow> float_of_num example_lib x = Some x"
  by (simp add: example_lib_def)

lemma example_float_too_large: "float_of_num example_lib too_large = None"
  by (simp add: example_lib_def too_large_def)

lemma observe_column_Num:
  "col \<in> set cols \<Longrightarrow> row col = Num n
     \<Longrightarrow> observe_column lib cols row ts {} col
         = (case float_of_num lib n of
              None \<Rightarrow> ([], Some OverflowError)
            | Some v \<Rightarrow> (observation_triples col lib ts v, None))"
  by (simp add: observe_column_def row_get_def)

lemma observe_columns_raise:
  "observe_column lib cols row ts excl col = (a, Some e)
     \<Longrightarrow> observe_columns lib cols row ts excl (col # rest) = (a, Some e)"
  by simp

lemma observe_columns_step:
  "observe_column lib cols row ts excl col = (a, None)
     \<Longrightarrow> observe_columns lib cols row ts excl (col # rest)
         = (a @ fst (observe_columns lib cols row ts excl rest),
            snd (observe_columns lib cols row ts excl rest))"
  by (simp split: prod.splits)

lemma overflow_row:
  "row_body example_lib (columns overflow_table) (measurement_columns (columns overflow_table))
       (hd (rows overflow_table))
     = (observation_triples ''DE_KN_Building1_Grid_import'' example_lib
          (Str ''2015-01-01T00:00:00Z'') 3.5, Some OverflowError)"
proof -
  let ?row = "hd (rows overflow_table)"
  let ?cols = "columns overflow_table"
  let ?ts = "Str ''2015-01-01T00:00:00Z'' :: real cell"
  have 1: "observe_column example_lib ?cols ?row ?ts {} ''DE_KN_Building1_Grid_import''
             = (observation_triples ''DE_KN_Building1_Grid_import'' example_lib ?ts 3.5, None)"
    using observe_column_Num [of "''DE_KN_Building1_Grid_import''" ?cols ?row "3.5" example_lib ?ts]
    by (simp add: overflow_columns(1) overflow_cells(3) example_float_small)
  have 2: "observe_column example_lib ?cols ?row ?ts {} ''DE_KN_Building2_Grid_import''
             = ([], Some OverflowError)"
    using observe_column_Num [of "''DE_KN_Building2_Grid_import''" ?cols ?row too_large example_lib ?ts]
    by (simp add: overflow_columns(1) overflow_cells(4) example_float_too_large)
  have 3: "observe_columns example_lib ?cols ?row ?ts {}
             [''DE_KN_Building1_Grid_import'', ''DE_KN_Building2_Grid_import'',
              ''DE_KN_Building3_Grid_import'']
           = (observation_triples ''DE_KN_Building1_Grid_import'' example_lib ?ts 3.5,
              Some OverflowError)"
    by (simp only: observe_columns_step [OF 1] observe_columns_raise [OF 2] fst_conv snd_conv
          append_Nil2)
  have 4: "row_get ?cols ?row ''utc_timestamp'' = Inr ?ts"
    "row_get ?cols ?row ''interpolated'' = Inr NaN"
    by (simp_all add: row_get_def overflow_columns(1) overflow_cells(1,2))
  have 5: "interpolated_sensors_in_row (NaN :: real cell)
             = (Inr {} :: py_exception + (real, real) node set)"
    by (simp add: interpolated_sensors_in_row_def)
  show ?thesis
    by (simp only: row_body_def overflow_columns(2) 4 5 sum.case 3)
qed

lemma overflow_run:
  "build_graph example_lib overflow_table
     = (declare_entities (measurement_columns (columns overflow_table)) no_seen
          @ observation_triples ''DE_KN_Building1_Grid_import'' example_lib
              (Str ''2015-01-01T00:00:00Z'') 3.5,
        [(0, OverflowError)])"
proof -
  have "build_graph example_lib overflow_table
          = process_rows example_lib (columns overflow_table)
              (measurement_columns (columns overflow_table)) 0 [hd (rows overflow_table)]
              (declare_entities (measurement_columns (columns overflow_table)) no_seen, [])"
    using overflow_columns(3) by (simp add: build_graph_def Let_def)
  then show ?thesis
    by (simp add: overflow_row)
qed

lemma about_Cons: "about s (t # ts) = (if fst t = s then t # about s ts else about s ts)"
  by (simp add: about_def)

lemma observation_uri_inject: "(observation_uri a :: ('n, 'f) node) = observation_uri b \<longleftrightarrow> a = b"
  by (simp add: observation_uri_def EXDATA_def)

lemmas declare_defs =
  no_seen_def declare_column_def get_sensor_uri_def get_property_uri_def
  get_feature_of_interest_uri_def match_foi_def match_property_def match_location_def
  sanitize_for_uri_def is_uri_safe_def is_ascii_letter_def is_ascii_digit_def EXDATA_def
  EX_ns_def SAREF_def RDF_type_def RDFS_label_def foi_label_def newline_def Let_def

lemma overflow_declarations:
  "instances_of (SAREF ''Observation'')
     (declare_entities (measurement_columns (columns overflow_table)) (no_seen :: (real, real) seen))
     = []"
  "about (observation_uri w)
     (declare_entities (measurement_columns (columns overflow_table)) (no_seen :: (real, real) seen))
     = []"
  by (simp_all add: overflow_columns(2) declare_defs instances_of_def about_def
        observation_uri_def)

lemma overflow_observation:
  "observation_triples ''DE_KN_Building1_Grid_import'' example_lib
     (Str ''2015-01-01T00:00:00Z'') (v :: real)
   = [(observation_uri ''Building1_Grid_import_2015-01-01T00:00:00Z'', RDF_type,
         SAREF ''Observation''),
      (observation_uri ''Building1_Grid_import_2015-01-01T00:00:00Z'', SAREF ''hasTimestamp'',
         Literal_dateTime (Str ''2015-01-01T00:00:00Z'')),
      (observation_uri ''Building1_Grid_import_2015-01-01T00:00:00Z'', SAREF ''hasValue'',
         Literal_float v),
      (observation_uri ''Building1_Grid_import_2015-01-01T00:00:00Z'', SAREF ''madeBySensor'',
         EXDATA ''Sensor_Building1_Grid_import''),
      (observation_uri ''Building1_Grid_import_2015-01-01T00:00:00Z'', SAREF ''relatesToProperty'',
         EX_ns ''Property_Grid_import''),
      (observation_uri ''Building1_Grid_import_2015-01-01T00:00:00Z'', SAREF ''isAbout'',
         EXDATA ''Location_Building1'')]"
  by (simp add: observation_triples_def observation_uri_def py_format_def declare_defs)

text \<open>
  Claim C4 against the code. The claim says that a cell whose value fails to parse as a
  float gives no Observation and raises no error, and that a cell that parses gives
  exactly one Observation. In the run on \<open>overflow_table\<close> no column is excluded by
  interpolation. The cell of \<open>DE_KN_Building2_Grid_import\<close> fails to parse, and the step
  for it raises \<open>OverflowError\<close>, which the run prints for row 0. The cell of
  \<open>DE_KN_Building3_Grid_import\<close> parses to 2.5, and the graph of the run has no
  statement about an Observation of that column.
\<close>

theorem overflow_ends_the_row:
  "hd (rows overflow_table) ''DE_KN_Building2_Grid_import'' = Num too_large
   \<and> float_of_num example_lib too_large = None
   \<and> observe_column example_lib (columns overflow_table) (hd (rows overflow_table))
         (Str ''2015-01-01T00:00:00Z'') {} ''DE_KN_Building2_Grid_import''
       = ([], Some OverflowError)
   \<and> hd (rows overflow_table) ''DE_KN_Building3_Grid_import'' = Num 2.5
   \<and> float_of_num example_lib 2.5 = Some 2.5
   \<and> interpolated_sensors_in_row (hd (rows overflow_table) ''interpolated'')
       = (Inr {} :: py_exception + (real, real) node set)
   \<and> about (observation_uri ''Building3_Grid_import_2015-01-01T00:00:00Z'')
         (fst (build_graph example_lib overflow_table)) = []
   \<and> snd (build_graph example_lib overflow_table) = [(0, OverflowError)]"
proof -
  have 1: "observe_column example_lib (columns overflow_table) (hd (rows overflow_table))
         (Str ''2015-01-01T00:00:00Z'') {} ''DE_KN_Building2_Grid_import''
       = ([], Some OverflowError)"
    using observe_column_Num [of "''DE_KN_Building2_Grid_import''" "columns overflow_table"
        "hd (rows overflow_table)" too_large example_lib "Str ''2015-01-01T00:00:00Z''"]
    by (simp add: overflow_columns(1) overflow_cells(4) example_float_too_large)
  have 2: "float_of_num example_lib 2.5 = Some 2.5"
    by (simp add: example_float_small)
  have 3: "interpolated_sensors_in_row (hd (rows overflow_table) ''interpolated'')
       = (Inr {} :: py_exception + (real, real) node set)"
    by (simp add: overflow_cells(2) interpolated_sensors_in_row_def)
  have 4: "about (observation_uri ''Building3_Grid_import_2015-01-01T00:00:00Z'')
         (fst (build_graph example_lib overflow_table)) = []"
    by (simp add: overflow_run about_append overflow_declarations(2) overflow_observation
          about_Cons about_Nil observation_uri_inject)
  show ?thesis
    using overflow_cells(4,5) example_float_too_large 1 2 3 4 by (simp add: overflow_run)
qed

text \<open>
  Claim C5 against the code. The claim says that a row whose processing raises adds
  nothing to the graph. In the run on \<open>overflow_table\<close> the body of \<open>try\<close> for row 0
  ends with \<open>OverflowError\<close> after adding the Observation of the first column; the
  exception is caught and printed, and the statements stay: the graph of the run has
  that Observation, with the value 3.5.
\<close>

theorem failed_row_keeps_statements:
  "row_body example_lib (columns overflow_table) (measurement_columns (columns overflow_table))
       (hd (rows overflow_table))
     = (observation_triples ''DE_KN_Building1_Grid_import'' example_lib
          (Str ''2015-01-01T00:00:00Z'') 3.5, Some OverflowError)
   \<and> snd (build_graph example_lib overflow_table) = [(0, OverflowError)]
   \<and> instances_of (SAREF ''Observation'') (fst (build_graph example_lib overflow_table))
       = [observation_uri ''Building1_Grid_import_2015-01-01T00:00:00Z'']
   \<and> objects_of (observation_uri ''Building1_Grid_import_2015-01-01T00:00:00Z'')
         (SAREF ''hasValue'') (fst (build_graph example_lib overflow_table))
       = [Literal_float 3.5]"
proof -
  have 1: "instances_of (SAREF ''Observation'') (fst (build_graph example_lib overflow_table))
       = [observation_uri ''Building1_Grid_import_2015-01-01T00:00:00Z'']"
    using overflow_declarations(1)
    by (simp add: overflow_run instances_of_def overflow_observation SAREF_inject
          RDF_type_neq_SAREF)
  have "statements (observation_uri ''Building1_Grid_import_2015-01-01T00:00:00Z'')
          (SAREF ''hasValue'') (fst (build_graph example_lib overflow_table))
        = [(observation_uri ''Building1_Grid_import_2015-01-01T00:00:00Z'', SAREF ''hasValue'',
            Literal_float 3.5)]"
    using overflow_declarations(2) [of "''Building1_Grid_import_2015-01-01T00:00:00Z''"]
    by (simp add: statements_about overflow_run about_append overflow_observation about_Cons
          about_Nil SAREF_inject RDF_type_neq_SAREF)
  then have 2: "objects_of (observation_uri ''Building1_Grid_import_2015-01-01T00:00:00Z'')
         (SAREF ''hasValue'') (fst (build_graph example_lib overflow_table))
       = [Literal_float 3.5]"
    by (simp add: objects_of_def)
  show ?thesis
    using overflow_row 1 2 by (simp add: overflow_run)
qed

section \<open>Names without the expected shape\<close>

text \<open>
  The patterns of the program against the shapes: what \<open>match_location\<close> returns is
  a decomposition of the name, and a name that decomposes is matched.
\<close>

lemma digit_not_letter: "is_ascii_digit c \<Longrightarrow> \<not> is_ascii_letter c"
  by (auto simp: is_ascii_digit_def is_ascii_letter_def)

lemma takeWhile_run:
  assumes "list_all P xs" and "ys = [] \<or> \<not> P (hd ys)"
  shows "takeWhile P (xs @ ys) = xs" and "dropWhile P (xs @ ys) = ys"
proof -
  have t: "takeWhile P ys = []" and d: "dropWhile P ys = ys"
    using assms(2) by (cases ys; simp)+
  have a: "\<And>x. x \<in> set xs \<Longrightarrow> P x"
    using assms(1) by (simp add: list_all_iff)
  show "takeWhile P (xs @ ys) = xs"
    using a by (simp add: takeWhile_append2 t)
  show "dropWhile P (xs @ ys) = ys"
    using a by (simp add: dropWhile_append2 d)
qed

lemma match_location_shape:
  assumes "is_location loc" and "rest = [] \<or> \<not> is_ascii_digit (hd rest)"
  shows "match_location (''DE_KN_'' @ loc @ rest) = Some (loc, rest)"
proof -
  obtain ls ds where l: "loc = ls @ ds" "ls \<noteq> []" "ds \<noteq> []"
      "list_all is_ascii_letter ls" "list_all is_ascii_digit ds"
    using assms(1) by (auto simp: is_location_def)
  have "is_ascii_digit (hd ds)"
    using l(3,5) by (cases ds) simp_all
  then have h: "ds @ rest = [] \<or> \<not> is_ascii_letter (hd (ds @ rest))"
    using l(3) by (simp add: digit_not_letter)
  have 1: "takeWhile is_ascii_letter (ls @ ds @ rest) = ls"
    and 2: "dropWhile is_ascii_letter (ls @ ds @ rest) = ds @ rest"
    using takeWhile_run [OF l(4) h] by simp_all
  have 3: "takeWhile is_ascii_digit (ds @ rest) = ds"
    and 4: "dropWhile is_ascii_digit (ds @ rest) = rest"
    using takeWhile_run [OF l(5) assms(2)] by simp_all
  show ?thesis
    by (simp add: match_location_def l(1) 1 2 3 4 l(2,3))
qed

lemma list_all_takeWhile: "list_all P (takeWhile P xs)"
  by (induction xs) simp_all

lemma match_location_sound:
  assumes "match_location s = Some (loc, rest)"
  shows "s = ''DE_KN_'' @ loc @ rest \<and> is_location loc
       \<and> (rest = [] \<or> \<not> is_ascii_digit (hd rest))"
proof -
  define r where "r = drop 6 s"
  define r1 where "r1 = dropWhile is_ascii_letter r"
  define ls where "ls = takeWhile is_ascii_letter r"
  define ds where "ds = takeWhile is_ascii_digit r1"
  define r2 where "r2 = dropWhile is_ascii_digit r1"
  define pre where "pre \<longleftrightarrow> take 6 s = ''DE_KN_''"
  have m: "match_location s
             = (if pre then (if ls \<noteq> [] \<and> ds \<noteq> [] then Some (ls @ ds, r2) else None)
                else None)"
    unfolding match_location_def Let_def pre_def ls_def ds_def r2_def r1_def r_def ..
  have pre: pre and ne: "ls \<noteq> []" "ds \<noteq> []" and loc: "loc = ls @ ds" and rest: "rest = r2"
    using assms unfolding m by (auto split: if_splits)
  have p: "take 6 s = ''DE_KN_''"
    using pre unfolding pre_def .
  have a: "take 6 s @ r = s"
    unfolding r_def by (rule append_take_drop_id)
  have b: "ls @ r1 = r"
    unfolding ls_def r1_def by (rule takeWhile_dropWhile_id)
  have c: "ds @ r2 = r1"
    unfolding ds_def r2_def by (rule takeWhile_dropWhile_id)
  have "take 6 s @ (ls @ ds) @ r2 = s"
    by (simp only: append_assoc c b a)
  then have s: "s = ''DE_KN_'' @ loc @ rest"
    unfolding p loc rest by (rule sym)
  have "list_all is_ascii_letter ls" "list_all is_ascii_digit ds"
    unfolding ls_def ds_def by (rule list_all_takeWhile)+
  then have il: "is_location loc"
    unfolding is_location_def using ne loc by blast
  have "rest = [] \<or> \<not> is_ascii_digit (hd rest)"
    unfolding rest r2_def using hd_dropWhile [of is_ascii_digit r1] by blast
  then show ?thesis
    using s il by blast
qed

lemma underscore_not_digit: "\<not> is_ascii_digit (CHR ''_'')"
  and newline_not_digit: "\<not> is_ascii_digit newline"
  by (simp_all add: is_ascii_digit_def newline_def)

lemma property_shape_match:
  "property_shape c \<Longrightarrow> \<exists>loc rest. match_location c = Some (loc, CHR ''_'' # rest) \<and> rest \<noteq> []"
proof -
  assume "property_shape c"
  then obtain loc rest where c: "c = ''DE_KN_'' @ loc @ ''_'' @ rest" "is_location loc" "rest \<noteq> []"
    by (auto simp: property_shape_def)
  have "match_location (''DE_KN_'' @ loc @ (CHR ''_'' # rest)) = Some (loc, CHR ''_'' # rest)"
    using c(2) by (rule match_location_shape) (simp add: underscore_not_digit)
  then show ?thesis
    using c(1,3) by auto
qed

lemma match_property_shape:
  assumes "match_property c = Some g"
  shows "property_shape c"
proof -
  obtain loc cs where m: "match_location c = Some (loc, CHR ''_'' # cs)"
      and n: "takeWhile (\<lambda>x. x \<noteq> newline) cs \<noteq> []"
    using assms
    by (auto simp: match_property_def split: option.splits list.splits if_splits)
  have "cs \<noteq> []"
    using n by auto
  moreover have "c = ''DE_KN_'' @ loc @ ''_'' @ cs" and "is_location loc"
    using match_location_sound [OF m] by simp_all
  ultimately show ?thesis
    unfolding property_shape_def by blast
qed

lemma no_shape_no_match: "\<not> property_shape c \<Longrightarrow> match_property c = None"
  using match_property_shape by (cases "match_property c") auto

lemma match_foi_bare:
  assumes "\<not> property_shape c" and "match_foi c = Some loc"
  shows "is_location loc
       \<and> (c = ''DE_KN_'' @ loc \<or> c = ''DE_KN_'' @ loc @ ''_'' \<or> c = ''DE_KN_'' @ loc @ [newline])"
proof -
  obtain rest where m: "match_location c = Some (loc, rest)"
      and r: "take 1 rest = [CHR ''_''] \<or> rest = [] \<or> rest = [newline]"
    using assms(2) by (auto simp: match_foi_def split: option.splits if_splits)
  have c: "c = ''DE_KN_'' @ loc @ rest" and l: "is_location loc"
    using match_location_sound [OF m] by simp_all
  have "rest = ''_''" if t: "take 1 rest = [CHR ''_'']"
  proof (cases rest)
    case Nil
    then show ?thesis using t by simp
  next
    case (Cons x xs)
    then have x: "x = CHR ''_''" using t by simp
    have "xs = []"
    proof (rule ccontr)
      assume "xs \<noteq> []"
      then have "property_shape c"
        unfolding property_shape_def using c l Cons x by auto
      then show False using assms(1) by simp
    qed
    then show ?thesis using Cons x by simp
  qed
  then show ?thesis
    using r c l by auto
qed

lemma bare_match_foi:
  assumes "is_location loc"
      and "c = ''DE_KN_'' @ loc \<or> c = ''DE_KN_'' @ loc @ ''_'' \<or> c = ''DE_KN_'' @ loc @ [newline]"
  shows "match_foi c = Some loc"
proof -
  have 1: "match_location (''DE_KN_'' @ loc @ []) = Some (loc, [])"
    using assms(1) by (rule match_location_shape) simp
  have 2: "match_location (''DE_KN_'' @ loc @ ''_'') = Some (loc, ''_'')"
    using assms(1) by (rule match_location_shape) (simp add: underscore_not_digit)
  have 3: "match_location (''DE_KN_'' @ loc @ [newline]) = Some (loc, [newline])"
    using assms(1) by (rule match_location_shape) (simp add: newline_not_digit)
  show ?thesis
    using assms(2) 1 2 3 by (auto simp: match_foi_def)
qed

lemma not_bare_no_foi:
  assumes "\<not> property_shape c" and "\<not> bare_location c"
  shows "match_foi c = None"
proof (cases "match_foi c")
  case None
  then show ?thesis .
next
  case (Some loc)
  then have "bare_location c"
    using match_foi_bare [OF assms(1) Some] unfolding bare_location_def by blast
  then show ?thesis using assms(2) by simp
qed

lemma property_shape_prefix: "property_shape c \<Longrightarrow> match_location c \<noteq> None"
  using property_shape_match by fastforce

lemma bare_location_match: "bare_location c \<Longrightarrow> match_foi c \<noteq> None"
  using bare_match_foi unfolding bare_location_def by fastforce

lemma is_location_Building1: "is_location ''Building1''"
  unfolding is_location_def
  by (intro exI [of _ "''Building''"] exI [of _ "''1''"])
     (simp add: is_ascii_letter_def is_ascii_digit_def)

text \<open>
  Claim C7, as stated, fails. The column \<open>DE_KN_Building1\<close> does not have the shape
  prefix, location, underscore, rest, and its Property identity is the fallback
  \<open>Property_Building1\<close>; but the pattern for the location accepts the end of the name
  after the location, so the column has the FeatureOfInterest \<open>Location_Building1\<close>,
  which is declared for it.
\<close>

theorem fallback_location_counterexample:
  "\<not> property_shape ''DE_KN_Building1''
   \<and> (get_property_uri ''DE_KN_Building1'' :: (real, real) node) = EX_ns ''Property_Building1''
   \<and> (get_feature_of_interest_uri ''DE_KN_Building1'' :: (real, real) node option)
       = Some (EXDATA ''Location_Building1'')
   \<and> measurement_columns [''utc_timestamp'', ''interpolated'', ''DE_KN_Building1'']
       = [''DE_KN_Building1'']
   \<and> instances_of (SAREF ''FeatureOfInterest'')
        (fst (declare_column ''DE_KN_Building1'' (no_seen :: (real, real) seen)))
       = [EXDATA ''Location_Building1'']"
proof -
  have "match_location ''DE_KN_Building1'' = Some (''Building1'', [])"
    by (simp add: match_location_def is_ascii_letter_def is_ascii_digit_def)
  then have "\<not> property_shape ''DE_KN_Building1''"
    using property_shape_match [of "''DE_KN_Building1''"] by auto
  then show ?thesis
    by (simp add: eval_defs instances_of_def)
qed

text \<open>
  Claim C7, amended. Take a column name that does not have the shape prefix, location,
  underscore, rest. Its Property identity is \<open>Property_\<close> followed by the sanitized
  whole name, which is not empty, and its Sensor identity is \<open>Sensor_\<close> followed by
  the sanitized name. Unless the name is the prefix and a location alone, or these
  followed by one underscore or by one newline, there is no FeatureOfInterest: an
  Observation of the column has no \<open>isAbout\<close> statement, and the declaration step of
  the column declares no FeatureOfInterest and leaves the set of declared ones as it
  was. In the three excepted forms the FeatureOfInterest is \<open>Location_\<close> followed by
  the location.
\<close>

theorem fallback_naming:
  fixes lib :: "('n, 'f) pylib" and sn :: "('n, 'f) seen"
  assumes "\<not> property_shape c"
  shows "(get_property_uri c :: ('n, 'f) node) = EX_ns (''Property_'' @ sanitize_for_uri c)
       \<and> ''Property_'' @ sanitize_for_uri c \<noteq> []
       \<and> (get_sensor_uri c :: ('n, 'f) node) = EXDATA (''Sensor_'' @ sanitize_for_uri c)
       \<and> (\<not> bare_location c \<longrightarrow>
            (get_feature_of_interest_uri c :: ('n, 'f) node option) = None
          \<and> filter (\<lambda>t. fst (snd t) = SAREF ''isAbout'') (observation_triples c lib ts v) = []
          \<and> instances_of (SAREF ''FeatureOfInterest'') (fst (declare_column c sn)) = []
          \<and> defined_fois (snd (declare_column c sn)) = defined_fois sn)
       \<and> (\<forall>loc. is_location loc
              \<and> (c = ''DE_KN_'' @ loc \<or> c = ''DE_KN_'' @ loc @ ''_''
                   \<or> c = ''DE_KN_'' @ loc @ [newline])
            \<longrightarrow> (get_feature_of_interest_uri c :: ('n, 'f) node option)
                  = Some (EXDATA (''Location_'' @ loc)))"
proof -
  have m: "match_property c = None"
    using assms by (rule no_shape_no_match)
  have 1: "(get_property_uri c :: ('n, 'f) node) = EX_ns (''Property_'' @ sanitize_for_uri c)"
    using m by (simp add: get_property_uri_def)
  have 2: "(get_sensor_uri c :: ('n, 'f) node) = EXDATA (''Sensor_'' @ sanitize_for_uri c)"
    by (simp add: get_sensor_uri_def)
  have 3: "(get_feature_of_interest_uri c :: ('n, 'f) node option) = None
          \<and> filter (\<lambda>t. fst (snd t) = SAREF ''isAbout'') (observation_triples c lib ts v) = []
          \<and> instances_of (SAREF ''FeatureOfInterest'') (fst (declare_column c sn)) = []
          \<and> defined_fois (snd (declare_column c sn)) = defined_fois sn"
    if b: "\<not> bare_location c"
  proof -
    have "match_foi c = None"
      using assms b by (rule not_bare_no_foi)
    then have f: "(get_feature_of_interest_uri c :: ('n, 'f) node option) = None"
      by (simp add: get_feature_of_interest_uri_def)
    have o: "filter (\<lambda>t. fst (snd t) = SAREF ''isAbout'') (observation_triples c lib ts v) = []"
      by (simp add: observation_triples_split f SAREF_inject RDF_type_neq_SAREF)
    have d: "instances_of (SAREF ''FeatureOfInterest'') (fst (declare_column c sn)) = []"
      by (simp add: declare_column_eq f instances_of_def sensor_decl_def property_decl_def
            SAREF_inject RDF_type_neq_SAREF type_neq_label type_neq_label [symmetric])
    have s: "defined_fois (snd (declare_column c sn)) = defined_fois sn"
      by (simp add: declare_column_eq f)
    show ?thesis using f o d s by blast
  qed
  have 4: "(get_feature_of_interest_uri c :: ('n, 'f) node option)
             = Some (EXDATA (''Location_'' @ loc))"
    if "is_location loc
          \<and> (c = ''DE_KN_'' @ loc \<or> c = ''DE_KN_'' @ loc @ ''_''
               \<or> c = ''DE_KN_'' @ loc @ [newline])" for loc
    using bare_match_foi [of loc c] that by (simp add: get_feature_of_interest_uri_def)
  show ?thesis
    using 1 2 3 4 by simp
qed

text \<open>
  The third scenario of the specification, the column \<open>temperature_outside\<close>, has no
  FeatureOfInterest; the name \<open>DE_KN_Building1\<close> followed by a newline has
  \<open>Location_Building1\<close>.
\<close>

theorem fallback_naming_witness:
  "\<not> property_shape ''temperature_outside''
   \<and> \<not> bare_location ''temperature_outside''
   \<and> (get_property_uri ''temperature_outside'' :: (real, real) node)
       = EX_ns ''Property_temperature_outside''
   \<and> (get_sensor_uri ''temperature_outside'' :: (real, real) node)
       = EXDATA ''Sensor_temperature_outside''
   \<and> (get_feature_of_interest_uri ''temperature_outside'' :: (real, real) node option) = None
   \<and> filter (\<lambda>t. fst (snd t) = SAREF ''isAbout'')
        (observation_triples ''temperature_outside'' example_lib (Str ''2015-01-01T00:00:00Z'') 3.5)
       = []
   \<and> instances_of (SAREF ''FeatureOfInterest'')
        (fst (declare_column ''temperature_outside'' (no_seen :: (real, real) seen))) = []
   \<and> \<not> property_shape (''DE_KN_Building1'' @ [newline])
   \<and> is_location ''Building1''
   \<and> (get_feature_of_interest_uri (''DE_KN_Building1'' @ [newline]) :: (real, real) node option)
       = Some (EXDATA ''Location_Building1'')"
proof -
  have "match_location ''temperature_outside'' = None"
    by (simp add: match_location_def)
  then have p: "\<not> property_shape ''temperature_outside''"
    using property_shape_prefix by blast
  have "match_foi ''temperature_outside'' = None"
    by (simp add: match_foi_def match_location_def)
  then have b: "\<not> bare_location ''temperature_outside''"
    using bare_location_match by blast
  have s: "sanitize_for_uri ''temperature_outside'' = ''temperature_outside''"
    by (simp add: sanitize_for_uri_def is_uri_safe_def is_ascii_letter_def is_ascii_digit_def)
  have "match_location (''DE_KN_Building1'' @ [newline]) = Some (''Building1'', [newline])"
    by (simp add: match_location_def is_ascii_letter_def is_ascii_digit_def newline_def)
  then have q: "\<not> property_shape (''DE_KN_Building1'' @ [newline])"
    using property_shape_match [of "''DE_KN_Building1'' @ [newline]"] by (auto simp: newline_def)
  note x = fallback_naming [OF p, of example_lib "Str ''2015-01-01T00:00:00Z''" "3.5" no_seen]
  note y = fallback_naming [OF q, of example_lib "Str ''2015-01-01T00:00:00Z''" "3.5" no_seen,
      THEN conjunct2, THEN conjunct2, THEN conjunct2, THEN conjunct2, rule_format,
      of "''Building1''"]
  have z: "(get_feature_of_interest_uri (''DE_KN_Building1'' @ [newline]) :: (real, real) node option)
       = Some (EXDATA ''Location_Building1'')"
    using y is_location_Building1 by simp
  show ?thesis
    using p b q is_location_Building1 x z by (simp add: s)
qed

section \<open>The command line\<close>

text \<open>
  Claim C6, as stated, fails. In \<open>calm_env\<close> serialising never fails. Called with a
  second argument \<open>out.ttl\<close>, the program still writes \<open>graph.ttl\<close>; called with no
  argument, or with a file that cannot be read, it ends with status 1 although no
  serialisation has failed.
\<close>

theorem command_line_counterexample:
  "main example_lib calm_env [''transformer.py'', ''in.csv'', ''out.ttl'']
     = Inr (''graph.ttl'', fst (build_graph example_lib (grid_table NaN (Num 3.5))))
   \<and> exit_code (main example_lib calm_env [''transformer.py'']) = 1
   \<and> exit_code (main example_lib calm_env [''transformer.py'', ''missing.csv'']) = 1"
  by (simp add: main_def transform_csv_to_rdf_def calm_env_def exit_code_def
        split: prod.splits)

text \<open>
  Claim C6, amended. Called with at least one argument, the program transforms the
  file named by the first argument and writes to the default path \<open>graph.ttl\<close>; further
  arguments are ignored. Its status is 0 exactly when the table is read and the graph is
  serialised; when serialising fails it leaves through \<open>sys.exit(1)\<close> with status 1,
  and when reading the table raises, the exception is not caught and the status is 1.
\<close>

theorem command_line:
  fixes lib :: "('n, 'f) pylib" and env :: "('n, 'f) environment"
  assumes "1 < length argv"
  shows "main lib env argv = transform_csv_to_rdf lib env (argv ! 1) ''graph.ttl''
       \<and> (exit_code (main lib env argv) = 0 \<longleftrightarrow>
            (\<exists>df. read_csv env (argv ! 1) = Some df
                  \<and> serialize env (fst (build_graph lib df)) ''graph.ttl''))
       \<and> (\<forall>df. read_csv env (argv ! 1) = Some df
                  \<and> \<not> serialize env (fst (build_graph lib df)) ''graph.ttl''
              \<longrightarrow> main lib env argv = Inl (SystemExit 1) \<and> exit_code (main lib env argv) = 1)
       \<and> (\<forall>df. read_csv env (argv ! 1) = Some df
                  \<and> serialize env (fst (build_graph lib df)) ''graph.ttl''
              \<longrightarrow> main lib env argv = Inr (''graph.ttl'', fst (build_graph lib df)))
       \<and> (read_csv env (argv ! 1) = None
              \<longrightarrow> main lib env argv = Inl ReadError \<and> exit_code (main lib env argv) = 1)"
  using assms
  by (auto simp: main_def transform_csv_to_rdf_def exit_code_def
        split: option.splits prod.splits)

text \<open>
  The same command line where serialising fails, status 1, and where it succeeds,
  status 0.
\<close>

theorem command_line_witness:
  "1 < length [''transformer.py'', ''in.csv'', ''out.ttl'']
   \<and> main example_lib full_disk_env [''transformer.py'', ''in.csv'', ''out.ttl'']
       = Inl (SystemExit 1)
   \<and> exit_code (main example_lib full_disk_env [''transformer.py'', ''in.csv'', ''out.ttl'']) = 1
   \<and> exit_code (main example_lib calm_env [''transformer.py'', ''in.csv'', ''out.ttl'']) = 0"
proof -
  have h: "1 < length [''transformer.py'', ''in.csv'', ''out.ttl'']"
    by simp
  have r: "read_csv full_disk_env ''in.csv'' = Some (grid_table NaN (Num 3.5))"
    "read_csv calm_env ''in.csv'' = Some (grid_table NaN (Num 3.5))"
    "\<not> serialize full_disk_env g ''graph.ttl''" "serialize calm_env g ''graph.ttl''" for g
    by (simp_all add: full_disk_env_def calm_env_def)
  show ?thesis
    using h command_line [OF h, of example_lib full_disk_env, THEN conjunct2]
      command_line [OF h, of example_lib calm_env, THEN conjunct2]
    by (simp add: r exit_code_def)
qed

end
